theory Spec2Isabelle
  imports Complex_Main "HOL-Library.Word" "HOL-Library.Sublist" "HOL-Library.Log_Nat"
begin

section \<open>Strings, bytes and errors\<close>

text \<open>
  A JavaScript string is a sequence of UTF-16 code units; \<open>charCodeAt\<close> reads one of
  them. A \<open>Uint8Array\<close> is a sequence of bytes. A string literal of the source is
  written \<open>js ''...''\<close>.
\<close>

type_synonym jsstring = "16 word list"
type_synonym bytes = "8 word list"

definition js :: "string \<Rightarrow> jsstring" where
  "js s = map (\<lambda>c. of_nat (of_char c)) s"

text \<open>Every \<open>throw\<close> of the modelled code is a value of this type.\<close>

datatype error =
    AsciiEncodeError "16 word"        \<comment> \<open>Character can't be encoded as a standard ASCII character\<close>
  | VoiceWithoutEngine jsstring       \<comment> \<open>Voice was specified but no engine was specified\<close>
  | NoMatchingVoice                   \<comment> \<open>No matching voice found\<close>
  | Canceled                          \<comment> \<open>\<open>new Error("Canceled")\<close>\<close>
  | InvalidTimePitchShiftingMethod    \<comment> \<open>not a valid time and pitch shifting method\<close>
  | CollaboratorError jsstring        \<comment> \<open>an error raised by an external collaborator or callback\<close>
  | TypeError                         \<comment> \<open>property read on \<open>null\<close> or \<open>undefined\<close>\<close>

section \<open>Numbers\<close>

text \<open>
  A JavaScript number is an IEEE 754 binary64 value. A finite one is modelled as the
  real number it denotes. The result of an arithmetic operation is the exact result
  rounded to the nearest number of the format, a tie going to the even significand:
  \<open>roundToFormat p n\<close> rounds to the binary format with \<open>p\<close> bits of precision whose
  smallest positive number is \<open>2^-n\<close>, and \<open>toDouble\<close> is the case of binary64
  (53 bits, \<open>2^-1074\<close>). \<open>lastBitExponent\<close> is the exponent of the last bit of the
  significand: \<open>p\<close> below the number of bits of the integer part once the number is
  scaled by \<open>2^n\<close>, and never below \<open>-n\<close> (the subnormal numbers). Not modelled:
  \<open>Infinity\<close> (a result at or beyond \<open>2^1024\<close>, a division by zero), \<open>NaN\<close> and the sign of
  zero.
\<close>

definition roundHalfEven :: "real \<Rightarrow> int" where
  "roundHalfEven y =
     (let f = \<lfloor>y\<rfloor>; r = y - of_int f
      in if r < 1/2 then f else if 1/2 < r then f + 1 else if even f then f else f + 1)"

definition lastBitExponent :: "nat \<Rightarrow> nat \<Rightarrow> real \<Rightarrow> int" where
  "lastBitExponent p n x = max (bitlen \<lfloor>\<bar>x\<bar> * 2 ^ n\<rfloor> - int n - int p) (- int n)"

definition roundToFormat :: "nat \<Rightarrow> nat \<Rightarrow> real \<Rightarrow> real" where
  "roundToFormat p n x =
     (let e = lastBitExponent p n x
      in if e < 0 then of_int (roundHalfEven (x * 2 ^ nat (- e))) / 2 ^ nat (- e)
         else of_int (roundHalfEven (x / 2 ^ nat e)) * 2 ^ nat e)"

definition toDouble :: "real \<Rightarrow> real" where
  "toDouble x = roundToFormat 53 1074 x"

text \<open>The operators \<open>+\<close>, \<open>-\<close>, \<open>*\<close> and \<open>/\<close> on numbers.\<close>

definition jsAdd :: "real \<Rightarrow> real \<Rightarrow> real" where
  "jsAdd a b = toDouble (a + b)"

definition jsSub :: "real \<Rightarrow> real \<Rightarrow> real" where
  "jsSub a b = toDouble (a - b)"

definition jsMul :: "real \<Rightarrow> real \<Rightarrow> real" where
  "jsMul a b = toDouble (a * b)"

definition jsDiv :: "real \<Rightarrow> real \<Rightarrow> real" where
  "jsDiv a b = toDouble (a / b)"

section \<open>ASCII encoding and decoding\<close>

text \<open>
  \<open>encodeAscii\<close>: the loop over \<open>i\<close> writes \<open>buffer[i] = charCode\<close> into a zero-filled
  \<open>Uint8Array\<close> of the string's length (a store into a \<open>Uint8Array\<close> keeps the low
  eight bits) and throws at the first code unit of 128 or more.
\<close>

function encodeAscii_loop :: "jsstring \<Rightarrow> nat \<Rightarrow> bytes \<Rightarrow> error + bytes" where
  "encodeAscii_loop asciiString i buffer =
     (if i < length asciiString then
        (let charCode = asciiString ! i in
         if charCode \<ge> 128 then Inl (AsciiEncodeError charCode)
         else encodeAscii_loop asciiString (i + 1) (buffer[i := ucast charCode]))
      else Inr buffer)"
  by pat_completeness auto
termination
  by (relation "measure (\<lambda>(s, i, b). length s - i)") auto

declare encodeAscii_loop.simps [simp del]

definition encodeAscii :: "jsstring \<Rightarrow> error + bytes" where
  "encodeAscii asciiString =
     encodeAscii_loop asciiString 0 (replicate (length asciiString) 0)"

text \<open>
  \<open>TextDecoder('windows-1252')\<close> is the platform's single-byte decoder: a byte below
  \<open>0x80\<close> and a byte from \<open>0xA0\<close> decode to the code point of the same number; the
  bytes \<open>0x80\<close> to \<open>0x9F\<close> decode through the table of the Encoding Standard.
\<close>

definition windows1252_high :: "16 word list" where
  "windows1252_high =
     [0x20AC, 0x0081, 0x201A, 0x0192, 0x201E, 0x2026, 0x2020, 0x2021,
      0x02C6, 0x2030, 0x0160, 0x2039, 0x0152, 0x008D, 0x017D, 0x008F,
      0x0090, 0x2018, 0x2019, 0x201C, 0x201D, 0x2022, 0x2013, 0x2014,
      0x02DC, 0x2122, 0x0161, 0x203A, 0x0153, 0x009D, 0x017E, 0x0178]"

definition windows1252_byte :: "8 word \<Rightarrow> 16 word" where
  "windows1252_byte b =
     (if b < 0x80 then ucast b
      else if b < 0xA0 then windows1252_high ! (unat b - 0x80)
      else ucast b)"

definition textDecoder_decode :: "bytes \<Rightarrow> jsstring" where
  "textDecoder_decode chunk = map windows1252_byte chunk"

text \<open>\<open>Uint8Array.subarray(begin, end)\<close> for \<open>0 \<le> begin \<le> end\<close>: both ends are clamped to the length.\<close>

definition subarray :: "bytes \<Rightarrow> nat \<Rightarrow> nat \<Rightarrow> bytes" where
  "subarray buffer begin fin = take (fin - begin) (drop begin buffer)"

definition maxChunkSize :: nat where
  "maxChunkSize = 2 ^ 24"

text \<open>
  \<open>decodeAscii\<close>: the loop over \<open>offset\<close> feeds chunks of at most \<open>maxChunkSize\<close> bytes
  to a \<open>ChunkedAsciiDecoder\<close>, whose state is the string \<open>str\<close> decoded so far.
\<close>

definition writeChunk :: "jsstring \<Rightarrow> bytes \<Rightarrow> jsstring" where
  "writeChunk str chunk = str @ textDecoder_decode chunk"

function decodeAscii_loop :: "bytes \<Rightarrow> nat \<Rightarrow> jsstring \<Rightarrow> jsstring" where
  "decodeAscii_loop buffer offset str =
     (if offset < length buffer then
        decodeAscii_loop buffer (offset + maxChunkSize)
          (writeChunk str (subarray buffer offset (offset + maxChunkSize)))
      else str)"
  by pat_completeness auto
termination
  by (relation "measure (\<lambda>(b, offset, s). length b - offset)") (auto simp: maxChunkSize_def)

declare decodeAscii_loop.simps [simp del]

definition decodeAscii :: "bytes \<Rightarrow> jsstring" where
  "decodeAscii buffer = decodeAscii_loop buffer 0 []"

section \<open>Voices, options and collaborators\<close>

datatype SynthesisEngine =
    vits | pico | flite | espeak | sam | sapi | msspeech | coqui_server | google_cloud
  | microsoft_azure | amazon_polly | elevenlabs | google_translate | microsoft_edge
  | streamlabs_polly

text \<open>\<open>interface SynthesisVoice\<close>; \<open>gender\<close> is one of the strings \<open>male\<close>, \<open>female\<close>, \<open>unknown\<close>.\<close>

record SynthesisVoice =
  name :: jsstring
  languages :: "jsstring list"
  gender :: jsstring
  speakerCount :: "nat option"
  packageName :: "jsstring option"

text \<open>
  \<open>interface SynthesisOptions\<close>, the fields the pipeline itself reads. Every field is
  optional in the source; \<open>None\<close> is \<open>undefined\<close>. The fields \<open>postSpeed\<close> and
  \<open>postPitch\<close> are \<open>postProcessing.speed\<close> and \<open>postProcessing.pitch\<close>. The
  sub-records of the single engines are read by the engines only and are left to them.
\<close>

record PostProcessingOptions =
  normalizeAudio :: "bool option"
  targetPeakDb :: "real option"
  maxIncreaseDb :: "real option"
  postSpeed :: "real option"
  postPitch :: "real option"
  timePitchShiftingMethod :: "jsstring option"

record SynthesisOptions =
  engine :: "SynthesisEngine option"
  language :: "jsstring option"
  voice :: "jsstring option"
  voiceGender :: "jsstring option"
  speed :: "real option"
  pitch :: "real option"
  ssml :: "bool option"
  splitToSentences :: "bool option"
  segmentEndPause :: "real option"
  sentenceEndPause :: "real option"
  postProcessing :: PostProcessingOptions

text \<open>\<open>!s\<close> and \<open>if (s)\<close> on an optional string: \<open>undefined\<close> and the empty string are falsy.\<close>

definition truthy :: "jsstring option \<Rightarrow> bool" where
  "truthy s = (case s of None \<Rightarrow> False | Some v \<Rightarrow> v \<noteq> [])"

definition orElse :: "'a option \<Rightarrow> 'a option \<Rightarrow> 'a option" where
  "orElse given dflt = (case given of None \<Rightarrow> dflt | Some v \<Rightarrow> Some v)"

definition defaultPostProcessing :: PostProcessingOptions where
  "defaultPostProcessing =
     \<lparr> normalizeAudio = Some True, targetPeakDb = Some (-3), maxIncreaseDb = Some 30,
       postSpeed = None, postPitch = None,
       timePitchShiftingMethod = Some (js ''sonic'') \<rparr>"

definition defaultSynthesisOptions :: SynthesisOptions where
  "defaultSynthesisOptions =
     \<lparr> engine = None, language = None, voice = None, voiceGender = None,
       speed = Some 1, pitch = Some 1, ssml = Some False, splitToSentences = Some True,
       segmentEndPause = Some 1, sentenceEndPause = Some 0.75,
       postProcessing = defaultPostProcessing \<rparr>"

text \<open>
  Modelled from the spec: \<open>extendDeep\<close> of \<open>utilities/ObjectUtilities.js\<close>, which is
  not among the sources. "Unset fields fall back to documented defaults; defaults are
  merged recursively, never overwriting an explicitly-set leaf."
\<close>

definition extendDeepPost :: "PostProcessingOptions \<Rightarrow> PostProcessingOptions \<Rightarrow> PostProcessingOptions" where
  "extendDeepPost base ext =
     \<lparr> normalizeAudio = orElse (normalizeAudio ext) (normalizeAudio base),
       targetPeakDb = orElse (targetPeakDb ext) (targetPeakDb base),
       maxIncreaseDb = orElse (maxIncreaseDb ext) (maxIncreaseDb base),
       postSpeed = orElse (postSpeed ext) (postSpeed base),
       postPitch = orElse (postPitch ext) (postPitch base),
       timePitchShiftingMethod =
         orElse (timePitchShiftingMethod ext) (timePitchShiftingMethod base) \<rparr>"

definition extendDeep :: "SynthesisOptions \<Rightarrow> SynthesisOptions \<Rightarrow> SynthesisOptions" where
  "extendDeep base ext =
     \<lparr> engine = orElse (engine ext) (engine base),
       language = orElse (language ext) (language base),
       voice = orElse (voice ext) (voice base),
       voiceGender = orElse (voiceGender ext) (voiceGender base),
       speed = orElse (speed ext) (speed base),
       pitch = orElse (pitch ext) (pitch base),
       ssml = orElse (ssml ext) (ssml base),
       splitToSentences = orElse (splitToSentences ext) (splitToSentences base),
       segmentEndPause = orElse (segmentEndPause ext) (segmentEndPause base),
       sentenceEndPause = orElse (sentenceEndPause ext) (sentenceEndPause base),
       postProcessing = extendDeepPost (postProcessing base) (postProcessing ext) \<rparr>"

text \<open>
  The functions and tables of \<open>utilities/Locale.js\<close> and the platform's case
  conversions are not among the sources; the model takes them as parameters.
  \<open>shortLanguageCodeToLong\<close> is the lookup in the table of that name (\<open>None\<close> where the
  table has no entry). \<open>loadVoiceList\<close> stands for the voice list read from the
  engine's cache file or listed by the engine (lines 1114 to 1385 of
  \<open>requestVoiceList\<close>), which can fail. \<open>vitsVoiceList\<close>, \<open>fliteVoiceList\<close> and
  \<open>picoVoiceList\<close> are the static voice tables of the three offline engines.
\<close>

record Locale =
  normalizeLanguageCode :: "jsstring \<Rightarrow> jsstring"
  getShortLanguageCode :: "jsstring \<Rightarrow> jsstring"
  shortLanguageCodeToLong :: "jsstring \<Rightarrow> jsstring option"
  toLowerCase :: "jsstring \<Rightarrow> jsstring"
  toLocaleLowerCase :: "jsstring \<Rightarrow> jsstring"

record VoiceSources =
  loadVoiceList :: "SynthesisOptions \<Rightarrow> error + SynthesisVoice list"
  vitsVoiceList :: "SynthesisVoice list"
  fliteVoiceList :: "SynthesisVoice list"
  picoVoiceList :: "SynthesisVoice list"

subsection \<open>Splitting at word boundaries\<close>

text \<open>
  \<open>s.split(/\b/g)\<close>: the regular expression has no \<open>u\<close> flag, so a word character is
  one of \<open>A-Z\<close>, \<open>a-z\<close>, \<open>0-9\<close> and \<open>_\<close>, and the string is cut between a word
  character and a non-word character: the parts are the maximal runs of characters of
  one kind. The empty string gives one empty part.
\<close>

definition isWordChar :: "16 word \<Rightarrow> bool" where
  "isWordChar c =
     ((0x41 \<le> c \<and> c \<le> 0x5A) \<or> (0x61 \<le> c \<and> c \<le> 0x7A) \<or> (0x30 \<le> c \<and> c \<le> 0x39) \<or> c = 0x5F)"

fun splitRuns :: "jsstring \<Rightarrow> jsstring list" where
  "splitRuns [] = []"
| "splitRuns [c] = [[c]]"
| "splitRuns (c # d # cs) =
     (if isWordChar c = isWordChar d then
        (case splitRuns (d # cs) of [] \<Rightarrow> [[c]] | r # rs \<Rightarrow> (c # r) # rs)
      else [c] # splitRuns (d # cs))"

definition splitAtWordBoundaries :: "jsstring \<Rightarrow> jsstring list" where
  "splitAtWordBoundaries s = (if s = [] then [[]] else splitRuns s)"

subsection \<open>requestVoiceList\<close>

record RequestVoiceListResult =
  voiceList :: "SynthesisVoice list"
  bestMatchingVoice :: "SynthesisVoice option"

definition dash :: "16 word" where
  "dash = 0x2D"

text \<open>Lines 1387 to 1399: the language filter.\<close>

definition filterByLanguage :: "Locale \<Rightarrow> jsstring \<Rightarrow> SynthesisVoice list \<Rightarrow> SynthesisVoice list" where
  "filterByLanguage loc languageCode voices =
     (if languageCode \<noteq> [] then
        (let filteredVoiceList = filter (\<lambda>voice. languageCode \<in> set (languages voice)) voices in
         if length filteredVoiceList = 0 \<and> dash \<in> set languageCode then
           (let shortLanguageCode = getShortLanguageCode loc languageCode in
            filter (\<lambda>voice. shortLanguageCode \<in> set (languages voice)) voices)
         else filteredVoiceList)
      else voices)"

text \<open>Lines 1401 to 1404: the gender filter.\<close>

definition filterByGender :: "Locale \<Rightarrow> jsstring option \<Rightarrow> SynthesisVoice list \<Rightarrow> SynthesisVoice list" where
  "filterByGender loc g voices =
     (if truthy g then
        (let genderLowercase = toLowerCase loc (the g) in
         filter (\<lambda>voice. gender voice = genderLowercase \<or> gender voice = js ''unknown'') voices)
      else voices)"

text \<open>Lines 1406 to 1426: the name pattern filter.\<close>

definition filterByName :: "Locale \<Rightarrow> jsstring option \<Rightarrow> SynthesisVoice list \<Rightarrow> SynthesisVoice list" where
  "filterByName loc v voices =
     (if truthy v then
        (let namePatternLowerCase = toLocaleLowerCase loc (the v);
             namePatternParts = splitAtWordBoundaries namePatternLowerCase in
         if length namePatternParts > 1 then
           filter (\<lambda>voice. sublist namePatternLowerCase (toLocaleLowerCase loc (name voice))) voices
         else
           filter (\<lambda>voice.
               list_ex (\<lambda>namePart. prefix namePatternLowerCase namePart)
                 (splitAtWordBoundaries (toLocaleLowerCase loc (name voice))))
             voices)
      else voices)"

text \<open>
  Lines 1428 to 1439: \<open>voiceList[0]\<close>, replaced by the first voice that declares the
  expanded language code when the list has more than one voice and the table has a
  (non-empty) entry for the language code.
\<close>

definition pickBestMatchingVoice :: "Locale \<Rightarrow> jsstring \<Rightarrow> SynthesisVoice list \<Rightarrow> SynthesisVoice option" where
  "pickBestMatchingVoice loc languageCode voices =
     (case voices of
        [] \<Rightarrow> None
      | first # _ \<Rightarrow>
          (if length voices > 1 \<and> truthy (shortLanguageCodeToLong loc languageCode) then
             (let expandedLanguageCode = the (shortLanguageCodeToLong loc languageCode) in
              case List.find (\<lambda>voice. expandedLanguageCode \<in> set (languages voice)) voices of
                Some found \<Rightarrow> Some found
              | None \<Rightarrow> Some first)
           else Some first))"

text \<open>
  \<open>defaultVoiceListRequestOptions\<close> spreads \<open>defaultSynthesisOptions\<close> and adds the
  cache settings, which only the loading of the voice list reads.
\<close>

definition defaultVoiceListRequestOptions :: SynthesisOptions where
  "defaultVoiceListRequestOptions = defaultSynthesisOptions"

text \<open>
  \<open>requestVoiceList\<close>: the list is loaded (from the cache file or from the engine), then
  filtered by language, gender and name pattern, and the best matching voice is picked.
\<close>

definition requestVoiceList ::
  "Locale \<Rightarrow> VoiceSources \<Rightarrow> SynthesisOptions \<Rightarrow> error + RequestVoiceListResult" where
  "requestVoiceList loc src options0 =
     (let options = extendDeep defaultVoiceListRequestOptions options0 in
      case loadVoiceList src options of
        Inl e \<Rightarrow> Inl e
      | Inr loaded \<Rightarrow>
          (let languageCode =
                 normalizeLanguageCode loc (if truthy (language options) then the (language options) else []);
               byLanguage = filterByLanguage loc languageCode loaded;
               byGender = filterByGender loc (voiceGender options) byLanguage;
               byName = filterByName loc (voice options) byGender
           in Inr \<lparr> voiceList = byName,
                    bestMatchingVoice = pickBestMatchingVoice loc languageCode byName \<rparr>))"

subsection \<open>selectBestOfflineEngineForLanguage\<close>

text \<open>
  \<open>getAllLangCodesFromVoiceList\<close>: the two nested loops push every language code not
  seen before; \<open>languageCodes\<close> is the set of the codes seen, \<open>langList\<close> the result.
\<close>

fun collectLangCodes :: "jsstring list \<Rightarrow> jsstring set \<times> jsstring list \<Rightarrow> jsstring set \<times> jsstring list" where
  "collectLangCodes [] acc = acc"
| "collectLangCodes (langCode # rest) (languageCodes, langList) =
     (if langCode \<in> languageCodes then collectLangCodes rest (languageCodes, langList)
      else collectLangCodes rest (insert langCode languageCodes, langList @ [langCode]))"

fun getAllLangCodes_loop :: "SynthesisVoice list \<Rightarrow> jsstring set \<times> jsstring list \<Rightarrow> jsstring set \<times> jsstring list" where
  "getAllLangCodes_loop [] acc = acc"
| "getAllLangCodes_loop (v # rest) acc =
     getAllLangCodes_loop rest (collectLangCodes (languages v) acc)"

definition getAllLangCodesFromVoiceList :: "SynthesisVoice list \<Rightarrow> jsstring list" where
  "getAllLangCodesFromVoiceList voices = snd (getAllLangCodes_loop voices ({}, []))"

definition selectBestOfflineEngineForLanguage :: "Locale \<Rightarrow> VoiceSources \<Rightarrow> jsstring \<Rightarrow> SynthesisEngine" where
  "selectBestOfflineEngineForLanguage loc src language0 =
     (let lang = normalizeLanguageCode loc language0 in
      if lang \<in> set (getAllLangCodesFromVoiceList (vitsVoiceList src)) then vits
      else if lang \<in> set (getAllLangCodesFromVoiceList (fliteVoiceList src)) then flite
      else if lang \<in> set (getAllLangCodesFromVoiceList (picoVoiceList src)) then pico
      else espeak)"

subsection \<open>Sample collaborators\<close>

text \<open>
  A concrete locale and concrete voice tables, on which the theorems below are
  instantiated: codes are already normalized, the short code is the part before the
  first dash, and the table of long forms has the single entry \<open>en \<mapsto> en-US\<close>.
\<close>

definition sampleLocale :: Locale where
  "sampleLocale =
     \<lparr> normalizeLanguageCode = (\<lambda>s. s),
       getShortLanguageCode = takeWhile (\<lambda>c. c \<noteq> dash),
       shortLanguageCodeToLong = (\<lambda>s. if s = js ''en'' then Some (js ''en-US'') else None),
       toLowerCase = (\<lambda>s. s),
       toLocaleLowerCase = (\<lambda>s. s) \<rparr>"

definition mkVoice :: "string \<Rightarrow> string list \<Rightarrow> SynthesisVoice" where
  "mkVoice n ls =
     \<lparr> name = js n, languages = map js ls, gender = js ''unknown'',
       speakerCount = None, packageName = None \<rparr>"

definition sampleSources :: "SynthesisVoice list \<Rightarrow> VoiceSources" where
  "sampleSources voices =
     \<lparr> loadVoiceList = (\<lambda>options. Inr voices),
       vitsVoiceList = [mkVoice ''v'' [''de-DE'', ''de'']],
       fliteVoiceList = [mkVoice ''f'' [''en-US'', ''en'']],
       picoVoiceList = [mkVoice ''p'' [''fr-FR'', ''fr'']] \<rparr>"

definition noOptions :: SynthesisOptions where
  "noOptions =
     \<lparr> engine = None, language = None, voice = None, voiceGender = None,
       speed = None, pitch = None, ssml = None, splitToSentences = None,
       segmentEndPause = None, sentenceEndPause = None,
       postProcessing =
         \<lparr> normalizeAudio = None, targetPeakDb = None, maxIncreaseDb = None,
           postSpeed = None, postPitch = None, timePitchShiftingMethod = None \<rparr> \<rparr>"

section \<open>Numeric parameter translation\<close>








text \<open>
  Modelled from the spec: \<open>clip\<close> of \<open>utilities/Utilities.js\<close>, which is not among
  the sources; it brings a number into the range between its two bounds.
\<close>

definition clip :: "real \<Rightarrow> real \<Rightarrow> real \<Rightarrow> real" where
  "clip x lo hi = max lo (min hi x)"

text \<open>
  Lines 267 and 268: \<open>clip(options.speed, 0.1, 10.0)\<close> and \<open>clip(options.pitch, 0.1, 10.0)\<close>.
  The literal \<open>0.1\<close> is the number nearest to one tenth.
\<close>

definition clippedSpeed :: "SynthesisOptions \<Rightarrow> real" where
  "clippedSpeed options = clip (the (speed options)) (toDouble 0.1) 10.0"

definition clippedPitch :: "SynthesisOptions \<Rightarrow> real" where
  "clippedPitch options = clip (the (pitch options)) (toDouble 0.1) 10.0"



section \<open>Audio, timelines and the synthesis pipeline\<close>

text \<open>\<open>RawAudio\<close>: one sample sequence per channel and a sample rate.\<close>

record RawAudio =
  audioChannels :: "real list list"
  sampleRate :: real

text \<open>
  \<open>TimelineEntry\<close>: the fields \<open>type\<close> and \<open>text\<close> of the source are \<open>entryType\<close> and
  \<open>entryText\<close> here; \<open>timeline\<close> holds the entry's children (empty when it has none).
\<close>

datatype TimelineEntry =
  TimelineEntry (entryType: jsstring) (entryText: jsstring) (startTime: real) (endTime: real)
    (timeline: "TimelineEntry list")

type_synonym Timeline = "TimelineEntry list"

subsection \<open>Collaborators\<close>

text \<open>What the engine switch of \<open>synthesizeSegment\<close> (lines 253 to 744) leaves behind.\<close>

record BackendOutput =
  rawAudio :: RawAudio
  outTimeline :: "Timeline option"
  shouldPostprocessSpeed :: bool
  shouldPostprocessPitch :: bool

text \<open>\<open>interface SynthesisSegmentEventData\<close>, the argument of the two callbacks.\<close>

record SynthesisSegmentEventData =
  evIndex :: nat
  evTotal :: nat
  evAudio :: RawAudio
  evTimeline :: Timeline
  evTranscript :: jsstring
  evLanguage :: "jsstring option"
  evPeakDecibelsSoFar :: real

text \<open>An awaited callback returns (\<open>None\<close>) or rejects with an error.\<close>

type_synonym SynthesisSegmentEvent = "SynthesisSegmentEventData \<Rightarrow> error option"

text \<open>
  The collaborators of the pipeline, none of them among the sources, are parameters:
  language detection, the sentence splitter, the engines behind the switch
  of \<open>synthesizeSegment\<close> (\<open>engineSynthesize\<close>: text, selected voice, language, clipped
  speed and pitch, options), forced alignment, the HTML to text conversion, the two
  time and pitch shifting kernels (\<open>stretchTimePitch\<close>, by method name), the audio
  utilities, and the two timeline helpers \<open>addTimeOffsetToTimeline\<close> and
  \<open>multiplyTimelineByFactor\<close> of \<open>utilities/Timeline.js\<close>. \<open>unicodePunctuation\<close> is the
  table of the punctuation characters outside ASCII. \<open>shouldCancelCurrentTask\<close> reads
  ambient state of the worker; its argument here is the number of times it was
  evaluated before in this call, so that \<open>shouldCancelCurrentTask k\<close> is what the
  predicate answers at checkpoint \<open>k\<close>.
\<close>

record Collaborators =
  localeFns :: Locale
  voiceSources :: VoiceSources
  detectTextLanguage :: "jsstring \<Rightarrow> error + jsstring"
  splitToSentencesFn :: "jsstring \<Rightarrow> jsstring option \<Rightarrow> jsstring list"
  unicodePunctuation :: "16 word \<Rightarrow> bool"
  engineSynthesize ::
    "jsstring \<Rightarrow> SynthesisVoice \<Rightarrow> jsstring option \<Rightarrow> real \<Rightarrow> real \<Rightarrow> SynthesisOptions
      \<Rightarrow> error + BackendOutput"
  align :: "RawAudio \<Rightarrow> jsstring \<Rightarrow> jsstring option \<Rightarrow> error + Timeline"
  convertHtmlToText :: "jsstring \<Rightarrow> jsstring"
  stretchTimePitch :: "jsstring \<Rightarrow> RawAudio \<Rightarrow> real \<Rightarrow> real \<Rightarrow> error + RawAudio"
  downmixToMono :: "RawAudio \<Rightarrow> RawAudio"
  normalizeAudioLevel :: "RawAudio \<Rightarrow> real \<Rightarrow> real \<Rightarrow> RawAudio"
  trimAudioStart :: "real list \<Rightarrow> real \<Rightarrow> real \<Rightarrow> real list"
  trimAudioEnd :: "real list \<Rightarrow> real \<Rightarrow> real \<Rightarrow> real list"
  concatAudioSegments :: "real list list list \<Rightarrow> real list list"
  getAudioPeakDecibels :: "real list list \<Rightarrow> real"
  addTimeOffsetToTimeline :: "Timeline \<Rightarrow> real \<Rightarrow> Timeline"
  multiplyTimelineByFactor :: "Timeline \<Rightarrow> real \<Rightarrow> Timeline"
  shouldCancelCurrentTask :: "nat \<Rightarrow> bool"

text \<open>\<open>if (b)\<close> on an optional boolean.\<close>

definition truthyB :: "bool option \<Rightarrow> bool" where
  "truthyB b = (b = Some True)"

text \<open>\<open>String.prototype.trim\<close>: white space and line terminators are removed at both ends.\<close>

definition isJsWhiteSpace :: "16 word \<Rightarrow> bool" where
  "isJsWhiteSpace c =
     (c \<in> {0x09, 0x0A, 0x0B, 0x0C, 0x0D, 0x20, 0xA0, 0x1680, 0x2028, 0x2029, 0x202F, 0x205F,
            0x3000, 0xFEFF} \<or> (0x2000 \<le> c \<and> c \<le> 0x200A))"

definition trim :: "jsstring \<Rightarrow> jsstring" where
  "trim s = rev (dropWhile isJsWhiteSpace (rev (dropWhile isJsWhiteSpace s)))"

text \<open>
  Modelled from the spec: \<open>isWord\<close> of \<open>nlp/Segmentation.js\<close>, which is not among the
  sources. "Drop any timeline entries whose text is not a word-class token
  (punctuation-only or whitespace-only entries are pruned)": a text is a word unless
  it consists of punctuation characters only or of white space only (the empty text
  is white space only). The punctuation characters are those of ASCII, the graphic
  characters that are neither letters nor digits, and those of \<open>unicodePunctuation\<close>.
\<close>

definition isPunctuation :: "Collaborators \<Rightarrow> 16 word \<Rightarrow> bool" where
  "isPunctuation env c =
     ((0x21 \<le> c \<and> c \<le> 0x2F) \<or> (0x3A \<le> c \<and> c \<le> 0x40) \<or> (0x5B \<le> c \<and> c \<le> 0x60) \<or>
      (0x7B \<le> c \<and> c \<le> 0x7E) \<or> unicodePunctuation env c)"

definition punctuationOnly :: "Collaborators \<Rightarrow> jsstring \<Rightarrow> bool" where
  "punctuationOnly env t = (t \<noteq> [] \<and> list_all (isPunctuation env) t)"

definition whitespaceOnly :: "jsstring \<Rightarrow> bool" where
  "whitespaceOnly t = list_all isJsWhiteSpace t"

definition isWord :: "Collaborators \<Rightarrow> jsstring \<Rightarrow> bool" where
  "isWord env t = (\<not> punctuationOnly env t \<and> \<not> whitespaceOnly t)"

definition getEmptyRawAudio :: "nat \<Rightarrow> real \<Rightarrow> RawAudio" where
  "getEmptyRawAudio channelCount rate =
     \<lparr> audioChannels = replicate channelCount [], sampleRate = rate \<rparr>"

subsection \<open>synthesizeSegment: the postprocessing steps\<close>

text \<open>
  Lines 753 to 761. The first channel is replaced by its trimmed version; a timeline
  that exists is shifted by \<open>newDuration - oldDuration\<close>. Reading \<open>audioChannels[0].length\<close>
  of an audio without channels is a \<open>TypeError\<close>.
\<close>

definition trimStartStep ::
  "Collaborators \<Rightarrow> RawAudio \<Rightarrow> Timeline option \<Rightarrow> error + RawAudio \<times> Timeline option" where
  "trimStartStep env synthesizedAudio tline =
     (case audioChannels synthesizedAudio of
        [] \<Rightarrow> Inl TypeError
      | channel0 # others \<Rightarrow>
          (let preTrimSampleCount = length channel0;
               trimmedChannel = trimAudioStart env channel0 0 (- 40);
               trimmedAudio = synthesizedAudio\<lparr> audioChannels := trimmedChannel # others \<rparr>
           in case tline of
                Some attached \<Rightarrow>
                  (let oldDuration = jsDiv (real preTrimSampleCount) (sampleRate trimmedAudio);
                       newDuration = jsDiv (real (length trimmedChannel)) (sampleRate trimmedAudio)
                   in Inr (trimmedAudio,
                           Some (addTimeOffsetToTimeline env attached (jsSub newDuration oldDuration))))
              | None \<Rightarrow> Inr (trimmedAudio, None)))"

text \<open>Lines 763 to 781: without a timeline, the text is aligned with the audio.\<close>

definition alignStep ::
  "Collaborators \<Rightarrow> jsstring \<Rightarrow> bool \<Rightarrow> jsstring option \<Rightarrow> RawAudio \<Rightarrow> Timeline option
     \<Rightarrow> error + Timeline" where
  "alignStep env txt isSSML lang synthesizedAudio tline =
     (case tline of
        Some attached \<Rightarrow> Inr attached
      | None \<Rightarrow>
          (let plainText = (if isSSML then convertHtmlToText env txt else txt)
           in align env synthesizedAudio plainText lang))"

text \<open>
  Lines 783 to 821. \<open>differsFromOne x\<close> is \<open>x != undefined && x != 1.0\<close>;
  \<open>x || 1.0\<close> replaces an undefined factor and the factor 0 by 1.
  From the alignment step on the timeline is defined, so \<open>&& timeline\<close> holds.
\<close>

definition differsFromOne :: "real option \<Rightarrow> bool" where
  "differsFromOne x = (case x of None \<Rightarrow> False | Some v \<Rightarrow> v \<noteq> 1.0)"

definition orOne :: "real option \<Rightarrow> real" where
  "orOne x = (case x of None \<Rightarrow> 1 | Some v \<Rightarrow> if v = 0 then 1 else v)"

definition timePitchStep ::
  "Collaborators \<Rightarrow> PostProcessingOptions \<Rightarrow> real \<Rightarrow> real \<Rightarrow> bool \<Rightarrow> bool \<Rightarrow> RawAudio \<Rightarrow> Timeline
     \<Rightarrow> error + RawAudio \<times> Timeline" where
  "timePitchStep env postProcessingOptions speed1 pitch1 postSpeedFlag postPitchFlag
       synthesizedAudio tline =
     (let timeStretchFactor =
            (if postSpeedFlag \<and> postSpeed postProcessingOptions = None then Some speed1
             else postSpeed postProcessingOptions);
          pitchShiftFactor =
            (if postPitchFlag \<and> postPitch postProcessingOptions = None then Some pitch1
             else postPitch postProcessingOptions)
      in if differsFromOne timeStretchFactor \<or> differsFromOne pitchShiftFactor then
           (let timeStretchFactor1 = orOne timeStretchFactor;
                pitchShiftFactor1 = orOne pitchShiftFactor;
                timePitchShiftingMethod1 = timePitchShiftingMethod postProcessingOptions
            in if timePitchShiftingMethod1 = Some (js ''sonic'') \<or>
                  timePitchShiftingMethod1 = Some (js ''rubberband'') then
                 (case stretchTimePitch env (the timePitchShiftingMethod1) synthesizedAudio
                         timeStretchFactor1 pitchShiftFactor1 of
                    Inl e \<Rightarrow> Inl e
                  | Inr stretched \<Rightarrow>
                      Inr (stretched,
                           if timeStretchFactor1 \<noteq> 1.0
                           then multiplyTimelineByFactor env tline (jsDiv 1 timeStretchFactor1)
                           else tline))
               else Inl InvalidTimePitchShiftingMethod)
         else Inr (synthesizedAudio, tline))"

text \<open>Lines 823 to 825: the word filter.\<close>

definition wordFilter :: "Collaborators \<Rightarrow> Timeline \<Rightarrow> Timeline" where
  "wordFilter env tline = filter (\<lambda>entry. isWord env (entryText entry)) tline"

subsection \<open>synthesizeSegment\<close>

text \<open>Line 256: the language of the synthesis.\<close>

definition synthesisLanguage :: "Collaborators \<Rightarrow> SynthesisOptions \<Rightarrow> SynthesisVoice \<Rightarrow> jsstring option" where
  "synthesisLanguage env options selectedVoice =
     (if truthy (language options)
      then Some (normalizeLanguageCode (localeFns env) (the (language options)))
      else (case languages selectedVoice of [] \<Rightarrow> None | l # _ \<Rightarrow> Some l))"

text \<open>Lines 746 to 751: downmix to mono and, when asked for, normalize the level.\<close>

definition levelStep :: "Collaborators \<Rightarrow> SynthesisOptions \<Rightarrow> RawAudio \<Rightarrow> RawAudio" where
  "levelStep env options audio =
     (let mono = downmixToMono env audio
      in if truthyB (normalizeAudio (postProcessing options))
         then normalizeAudioLevel env mono (the (targetPeakDb (postProcessing options)))
                (the (maxIncreaseDb (postProcessing options)))
         else mono)"

definition synthesizeSegment ::
  "Collaborators \<Rightarrow> jsstring \<Rightarrow> SynthesisOptions \<Rightarrow> error + RawAudio \<times> Timeline" where
  "synthesizeSegment env txt options =
     (case requestVoiceList (localeFns env) (voiceSources env) options of
        Inl e \<Rightarrow> Inl e
      | Inr listed \<Rightarrow>
     (case bestMatchingVoice listed of
        None \<Rightarrow> Inl NoMatchingVoice
      | Some selectedVoice \<Rightarrow>
     (let lang = synthesisLanguage env options selectedVoice;
          speed1 = clippedSpeed options;
          pitch1 = clippedPitch options;
          isSSML = truthyB (ssml options)
      in
     (case engineSynthesize env txt selectedVoice lang speed1 pitch1 options of
        Inl e \<Rightarrow> Inl e
      | Inr out \<Rightarrow>
     (case trimStartStep env (levelStep env options (rawAudio out)) (outTimeline out) of
        Inl e \<Rightarrow> Inl e
      | Inr (trimmed, shifted) \<Rightarrow>
     (case alignStep env txt isSSML lang trimmed shifted of
        Inl e \<Rightarrow> Inl e
      | Inr aligned \<Rightarrow>
     (case timePitchStep env (postProcessing options) speed1 pitch1
             (shouldPostprocessSpeed out) (shouldPostprocessPitch out) trimmed aligned of
        Inl e \<Rightarrow> Inl e
      | Inr (synthesizedAudio, scaled) \<Rightarrow>
          Inr (synthesizedAudio, wordFilter env scaled))))))))"

subsection \<open>synthesizeSegments\<close>

text \<open>
  The local variables of \<open>synthesizeSegments\<close> that the two loops update.
  \<open>timelineAcc\<close> is the variable \<open>timeline\<close>, \<open>segmentEntryTimeline\<close> is
  \<open>segmentEntry.timeline\<close>, and \<open>cancelChecks\<close> counts the evaluations of the
  cancellation predicate.
\<close>

record Locals =
  segmentsAudio :: "RawAudio list"
  segmentsTimelines :: "Timeline list"
  timelineAcc :: Timeline
  peakDecibelsSoFar :: real
  timeOffset :: real
  sentencesAudio :: "RawAudio list"
  sentencesTimelines :: "Timeline list"
  segmentEntryTimeline :: Timeline
  cancelChecks :: nat

record SynthesizeSegmentsResult =
  synthesizedAudio :: RawAudio
  resultTimeline :: Timeline
  resultSegmentsAudio :: "RawAudio list"
  resultSegmentsTimelines :: "Timeline list"

definition notify :: "SynthesisSegmentEvent option \<Rightarrow> SynthesisSegmentEventData \<Rightarrow> Locals \<Rightarrow> error + Locals" where
  "notify callback ev st =
     (case callback of
        None \<Rightarrow> Inr st
      | Some cb \<Rightarrow> (case cb ev of Some e \<Rightarrow> Inl e | None \<Rightarrow> Inr st))"

text \<open>\<open>segments.join("\n")\<close>.\<close>

fun joinLines :: "jsstring list \<Rightarrow> jsstring" where
  "joinLines [] = []"
| "joinLines [segment] = segment"
| "joinLines (segment # next # rest) = segment @ [0x0A] @ joinLines (next # rest)"

text \<open>Lines 32 to 40: language detection when neither a language nor a voice is given.\<close>

definition resolveLanguage :: "Collaborators \<Rightarrow> jsstring list \<Rightarrow> SynthesisOptions \<Rightarrow> error + SynthesisOptions" where
  "resolveLanguage env segments options =
     (if \<not> truthy (language options) \<and> \<not> truthy (voice options) then
        (case detectTextLanguage env (joinLines segments) of
           Inl e \<Rightarrow> Inl e
         | Inr detectedLanguage \<Rightarrow> Inr (options\<lparr> language := Some detectedLanguage \<rparr>))
      else Inr options)"

text \<open>
  Lines 42 to 50. When no engine and no voice are given, the language is defined: it
  was given or has just been detected. The branch for an undefined language, where
  \<open>normalizeLanguageCode(undefined)\<close> would be called, is therefore not reached from
  \<open>synthesizeSegments\<close>.
\<close>

definition resolveEngine :: "Collaborators \<Rightarrow> SynthesisOptions \<Rightarrow> error + SynthesisOptions" where
  "resolveEngine env options =
     (if engine options = None then
        (if truthy (voice options) then Inl (VoiceWithoutEngine (the (voice options)))
         else
           (case language options of
              None \<Rightarrow> Inl TypeError
            | Some lang \<Rightarrow>
                Inr (options\<lparr> engine :=
                  Some (selectBestOfflineEngineForLanguage (localeFns env) (voiceSources env) lang) \<rparr>)))
      else Inr options)"

text \<open>Lines 54 to 64.\<close>

definition resolveVoice :: "Collaborators \<Rightarrow> SynthesisOptions \<Rightarrow> error + SynthesisOptions" where
  "resolveVoice env options =
     (case requestVoiceList (localeFns env) (voiceSources env) options of
        Inl e \<Rightarrow> Inl e
      | Inr listed \<Rightarrow>
          (case bestMatchingVoice listed of
             None \<Rightarrow> Inl NoMatchingVoice
           | Some best \<Rightarrow>
               (let named = options\<lparr> voice := Some (name best) \<rparr>
                in if \<not> truthy (language named)
                   then Inr (named\<lparr> language :=
                          (case languages best of [] \<Rightarrow> None | l # _ \<Rightarrow> Some l) \<rparr>)
                   else Inr named)))"

text \<open>
  Lines 117 to 163: the body of the sentence loop after its cancellation check.
  \<open>sentenceIndex = totalCount - 1\<close> tests for the last sentence (\<open>totalCount\<close> is at least 1
  inside the loop).
\<close>

definition sentenceStep ::
  "Collaborators \<Rightarrow> SynthesisOptions \<Rightarrow> SynthesisSegmentEvent option \<Rightarrow> nat \<Rightarrow> nat \<Rightarrow> jsstring
     \<Rightarrow> Locals \<Rightarrow> error + Locals" where
  "sentenceStep env options onSentence totalCount sentenceIndex sentence st =
     (let sentenceText = trim sentence;
          sentenceStartTime = timeOffset st;
          sentenceSynthesisOptions =
            extendDeep options
              (noOptions\<lparr> postProcessing := (postProcessing noOptions)\<lparr> normalizeAudio := Some False \<rparr> \<rparr>)
      in
      case synthesizeSegment env sentenceText sentenceSynthesisOptions of
        Inl e \<Rightarrow> Inl e
      | Inr (synthesized, sentenceTimeline) \<Rightarrow>
          (case audioChannels synthesized of
             [] \<Rightarrow> Inl TypeError
           | channel0 # others \<Rightarrow>
               (let endPause = (if sentenceIndex = totalCount - 1 then the (segmentEndPause options)
                                else the (sentenceEndPause options));
                    trimmedChannel = trimAudioEnd env channel0 (jsMul endPause (sampleRate synthesized)) (- 40);
                    sentenceAudio = synthesized\<lparr> audioChannels := trimmedChannel # others \<rparr>;
                    sentenceAudioLength = jsDiv (real (length trimmedChannel)) (sampleRate sentenceAudio);
                    newTimeOffset = jsAdd (timeOffset st) sentenceAudioLength;
                    sentenceTimelineWithOffset = addTimeOffsetToTimeline env sentenceTimeline sentenceStartTime;
                    newPeak = max (peakDecibelsSoFar st)
                                  (getAudioPeakDecibels env (audioChannels sentenceAudio));
                    st1 = st\<lparr> sentencesAudio := sentencesAudio st @ [sentenceAudio],
                              sentencesTimelines :=
                                (if length sentenceTimeline > 0
                                 then sentencesTimelines st @ [sentenceTimeline]
                                 else sentencesTimelines st),
                              timeOffset := newTimeOffset,
                              segmentEntryTimeline := segmentEntryTimeline st @
                                [TimelineEntry (js ''sentence'') sentenceText sentenceStartTime
                                   newTimeOffset sentenceTimelineWithOffset],
                              peakDecibelsSoFar := newPeak \<rparr>
                in notify onSentence
                     \<lparr> evIndex = sentenceIndex, evTotal = totalCount, evAudio = sentenceAudio,
                       evTimeline = sentenceTimeline, evTranscript = sentenceText,
                       evLanguage = language options, evPeakDecibelsSoFar = newPeak \<rparr>
                     st1)))"

text \<open>
  Lines 109 to 164: the sentence loop. Each iteration first evaluates the cancellation
  predicate (after yielding to the event loop) and throws \<open>Canceled\<close> when it holds.
\<close>

fun sentenceLoop ::
  "Collaborators \<Rightarrow> SynthesisOptions \<Rightarrow> SynthesisSegmentEvent option \<Rightarrow> nat \<Rightarrow> nat \<Rightarrow> jsstring list
     \<Rightarrow> Locals \<Rightarrow> error + Locals" where
  "sentenceLoop env options onSentence totalCount sentenceIndex [] st = Inr st"
| "sentenceLoop env options onSentence totalCount sentenceIndex (sentence # rest) st =
     (if shouldCancelCurrentTask env (cancelChecks st) then Inl Canceled
      else
        (case sentenceStep env options onSentence totalCount sentenceIndex sentence
                (st\<lparr> cancelChecks := Suc (cancelChecks st) \<rparr>) of
           Inl e \<Rightarrow> Inl e
         | Inr st1 \<Rightarrow> sentenceLoop env options onSentence totalCount (sentenceIndex + 1) rest st1))"

text \<open>Lines 93 to 104: the sentences of a segment.\<close>

definition sentencesOf :: "Collaborators \<Rightarrow> SynthesisOptions \<Rightarrow> jsstring \<Rightarrow> jsstring list" where
  "sentencesOf env options segmentText =
     (if (truthyB (splitToSentences options) \<or> engine options = Some vits) \<and> \<not> truthyB (ssml options) then
        (let sentences = filter (\<lambda>sentence. trim sentence \<noteq> [])
                           (splitToSentencesFn env segmentText (language options))
         in if length sentences = 0 then [[]] else sentences)
      else [segmentText])"

text \<open>Lines 79 to 199: the body of the segment loop.\<close>

definition segmentStep ::
  "Collaborators \<Rightarrow> SynthesisOptions \<Rightarrow> SynthesisSegmentEvent option \<Rightarrow> SynthesisSegmentEvent option
     \<Rightarrow> nat \<Rightarrow> nat \<Rightarrow> jsstring \<Rightarrow> Locals \<Rightarrow> error + Locals" where
  "segmentStep env options onSegment onSentence totalCount segmentIndex segment st =
     (let segmentText = trim segment;
          segmentStartTime = timeOffset st;
          sentences = sentencesOf env options segmentText
      in
      case sentenceLoop env options onSentence (length sentences) 0 sentences
             (st\<lparr> sentencesAudio := [], sentencesTimelines := [], segmentEntryTimeline := [] \<rparr>) of
        Inl e \<Rightarrow> Inl e
      | Inr st1 \<Rightarrow>
          (let segmentEntry = TimelineEntry (js ''segment'') segmentText segmentStartTime
                                (timeOffset st1) (segmentEntryTimeline st1);
               segmentAudio =
                 (case sentencesAudio st1 of
                    [] \<Rightarrow> getEmptyRawAudio 1 24000
                  | firstAudio # _ \<Rightarrow>
                      \<lparr> audioChannels = concatAudioSegments env (map audioChannels (sentencesAudio st1)),
                        sampleRate = sampleRate firstAudio \<rparr>);
               segmentTimelineWithoutOffset =
                 addTimeOffsetToTimeline env (segmentEntryTimeline st1) (- segmentStartTime);
               st2 = st1\<lparr> segmentsAudio := segmentsAudio st1 @ [segmentAudio],
                          timelineAcc := timelineAcc st1 @ [segmentEntry],
                          segmentsTimelines := segmentsTimelines st1 @ [segmentTimelineWithoutOffset] \<rparr>
           in notify onSegment
                \<lparr> evIndex = segmentIndex, evTotal = totalCount, evAudio = segmentAudio,
                  evTimeline = segmentTimelineWithoutOffset, evTranscript = segmentText,
                  evLanguage = language options, evPeakDecibelsSoFar = peakDecibelsSoFar st2 \<rparr>
                st2))"

fun segmentLoop ::
  "Collaborators \<Rightarrow> SynthesisOptions \<Rightarrow> SynthesisSegmentEvent option \<Rightarrow> SynthesisSegmentEvent option
     \<Rightarrow> nat \<Rightarrow> nat \<Rightarrow> jsstring list \<Rightarrow> Locals \<Rightarrow> error + Locals" where
  "segmentLoop env options onSegment onSentence totalCount segmentIndex [] st = Inr st"
| "segmentLoop env options onSegment onSentence totalCount segmentIndex (segment # rest) st =
     (case segmentStep env options onSegment onSentence totalCount segmentIndex segment st of
        Inl e \<Rightarrow> Inl e
      | Inr st1 \<Rightarrow> segmentLoop env options onSegment onSentence totalCount (segmentIndex + 1) rest st1)"

definition initialLocals :: Locals where
  "initialLocals =
     \<lparr> segmentsAudio = [], segmentsTimelines = [], timelineAcc = [], peakDecibelsSoFar = - 100,
       timeOffset = 0, sentencesAudio = [], sentencesTimelines = [], segmentEntryTimeline = [],
       cancelChecks = 0 \<rparr>"

text \<open>Lines 202 to 223: the result.\<close>

definition finish :: "Collaborators \<Rightarrow> SynthesisOptions \<Rightarrow> Locals \<Rightarrow> SynthesizeSegmentsResult" where
  "finish env options st =
     (let resultAudio =
            (case segmentsAudio st of
               [] \<Rightarrow> getEmptyRawAudio 1 24000
             | firstAudio # _ \<Rightarrow>
                 (let joined = \<lparr> audioChannels = concatAudioSegments env (map audioChannels (segmentsAudio st)),
                                 sampleRate = sampleRate firstAudio \<rparr>
                  in if truthyB (normalizeAudio (postProcessing options))
                     then normalizeAudioLevel env joined (the (targetPeakDb (postProcessing options)))
                            (the (maxIncreaseDb (postProcessing options)))
                     else joined))
      in \<lparr> synthesizedAudio = resultAudio, resultTimeline = timelineAcc st,
           resultSegmentsAudio = segmentsAudio st, resultSegmentsTimelines = segmentsTimelines st \<rparr>)"

text \<open>Lines 52 to 224, with the engine resolved.\<close>

definition synthesizeResolved ::
  "Collaborators \<Rightarrow> jsstring list \<Rightarrow> SynthesisOptions \<Rightarrow> SynthesisSegmentEvent option
     \<Rightarrow> SynthesisSegmentEvent option \<Rightarrow> error + SynthesizeSegmentsResult" where
  "synthesizeResolved env segments options onSegment onSentence =
     (case resolveVoice env options of
        Inl e \<Rightarrow> Inl e
      | Inr options1 \<Rightarrow>
          (case segmentLoop env options1 onSegment onSentence (length segments) 0 segments initialLocals of
             Inl e \<Rightarrow> Inl e
           | Inr st \<Rightarrow> Inr (finish env options1 st)))"

definition synthesizeSegments ::
  "Collaborators \<Rightarrow> jsstring list \<Rightarrow> SynthesisOptions \<Rightarrow> SynthesisSegmentEvent option
     \<Rightarrow> SynthesisSegmentEvent option \<Rightarrow> error + SynthesizeSegmentsResult" where
  "synthesizeSegments env segments options0 onSegment onSentence =
     (let options = extendDeep defaultSynthesisOptions options0 in
      case resolveLanguage env segments options of
        Inl e \<Rightarrow> Inl e
      | Inr options1 \<Rightarrow>
          (case resolveEngine env options1 of
             Inl e \<Rightarrow> Inl e
           | Inr options2 \<Rightarrow> synthesizeResolved env segments options2 onSegment onSentence))"

subsection \<open>Sample collaborators of the pipeline\<close>

text \<open>
  A concrete pipeline on which the theorems below are instantiated: every engine
  answers two seconds of audio at two samples per second, of which the first second
  is silent, and no timeline; alignment answers one entry that carries the whole
  text; the sentence splitter cuts after every full stop; no character outside ASCII
  is punctuation; trimming the start removes the leading zero samples; the other
  audio utilities leave the audio as it is; the timeline helpers add the offset to
  (multiply by the factor) the start and end time of every entry, at every depth.
\<close>

fun shiftEntry :: "real \<Rightarrow> TimelineEntry \<Rightarrow> TimelineEntry" where
  "shiftEntry d (TimelineEntry ty tx s e sub) =
     TimelineEntry ty tx (jsAdd s d) (jsAdd e d) (map (shiftEntry d) sub)"

fun scaleEntry :: "real \<Rightarrow> TimelineEntry \<Rightarrow> TimelineEntry" where
  "scaleEntry f (TimelineEntry ty tx s e sub) =
     TimelineEntry ty tx (jsMul s f) (jsMul e f) (map (scaleEntry f) sub)"

fun splitAfterFullStop :: "jsstring \<Rightarrow> jsstring \<Rightarrow> jsstring list" where
  "splitAfterFullStop [] current = (if current = [] then [] else [current])"
| "splitAfterFullStop (c # cs) current =
     (if c = 0x2E then (current @ [c]) # splitAfterFullStop cs []
      else splitAfterFullStop cs (current @ [c]))"

definition sampleAudio :: RawAudio where
  "sampleAudio = \<lparr> audioChannels = [[0, 0, 1, 1]], sampleRate = 2 \<rparr>"

definition sampleVoices :: "SynthesisVoice list" where
  "sampleVoices = [mkVoice ''a'' [''en-US'', ''en'']]"

definition sampleEnv :: "(nat \<Rightarrow> bool) \<Rightarrow> Collaborators" where
  "sampleEnv cancel =
     \<lparr> localeFns = sampleLocale,
       voiceSources = sampleSources sampleVoices,
       detectTextLanguage = (\<lambda>t. Inr (js ''en'')),
       splitToSentencesFn = (\<lambda>t lang. splitAfterFullStop t []),
       unicodePunctuation = (\<lambda>c. False),
       engineSynthesize = (\<lambda>t v lang sp pt options.
          Inr \<lparr> rawAudio = sampleAudio, outTimeline = None,
                shouldPostprocessSpeed = False, shouldPostprocessPitch = False \<rparr>),
       align = (\<lambda>audio t lang. Inr [TimelineEntry (js ''word'') t 0 1 []]),
       convertHtmlToText = (\<lambda>t. t),
       stretchTimePitch = (\<lambda>m audio ts ps. Inr audio),
       downmixToMono = (\<lambda>audio. audio),
       normalizeAudioLevel = (\<lambda>audio target maxIncrease. audio),
       trimAudioStart = (\<lambda>samples pad threshold. dropWhile (\<lambda>x. x = 0) samples),
       trimAudioEnd = (\<lambda>samples pad threshold. samples),
       concatAudioSegments = (\<lambda>parts. [concat (map concat parts)]),
       getAudioPeakDecibels = (\<lambda>channels. 0),
       addTimeOffsetToTimeline = (\<lambda>tline d. map (shiftEntry d) tline),
       multiplyTimelineByFactor = (\<lambda>tline f. map (scaleEntry f) tline),
       shouldCancelCurrentTask = cancel \<rparr>"


definition wordsOnly :: "Collaborators \<Rightarrow> Timeline \<Rightarrow> bool" where
  "wordsOnly env tline = list_all (\<lambda>entry. isWord env (entryText entry)) tline"

definition sentenceSynthesisOptionsOf :: "SynthesisOptions \<Rightarrow> SynthesisOptions" where
  "sentenceSynthesisOptionsOf options =
     extendDeep options
       (noOptions\<lparr> postProcessing := (postProcessing noOptions)\<lparr> normalizeAudio := Some False \<rparr> \<rparr>)"


section \<open>The transport client\<close>

text \<open>
  A decoded MessagePack message is a JavaScript value. An object is the list of its
  own properties; the first binding of a key is the property's value.
\<close>

datatype jsvalue =
    JUndefined
  | JNull
  | JBool bool
  | JNumber real
  | JString jsstring
  | JArray "jsvalue list"
  | JObject "(jsstring \<times> jsvalue) list"

text \<open>
  \<open>v.key\<close> for a key that no prototype defines: reading a property of \<open>null\<close> or
  \<open>undefined\<close> throws a \<open>TypeError\<close>; an object answers its own property or
  \<open>undefined\<close>; every other value answers \<open>undefined\<close>.
\<close>

fun getProperty :: "jsvalue \<Rightarrow> jsstring \<Rightarrow> error + jsvalue" where
  "getProperty JUndefined key = Inl TypeError"
| "getProperty JNull key = Inl TypeError"
| "getProperty (JObject properties) key =
     (case map_of properties key of Some v \<Rightarrow> Inr v | None \<Rightarrow> Inr JUndefined)"
| "getProperty v key = Inr JUndefined"

text \<open>\<open>!v\<close>: the falsy values are \<open>undefined\<close>, \<open>null\<close>, \<open>false\<close>, 0 and the empty string.\<close>

fun jsTruthy :: "jsvalue \<Rightarrow> bool" where
  "jsTruthy JUndefined = False"
| "jsTruthy JNull = False"
| "jsTruthy (JBool b) = b"
| "jsTruthy (JNumber x) = (x \<noteq> 0)"
| "jsTruthy (JString s) = (s \<noteq> [])"
| "jsTruthy v = True"

text \<open>What \<open>log\<close> writes to the standard error stream.\<close>

datatype logLine =
    UnexpectedStringMessage bytes
  | FailedToDecode error
  | MessageWithoutRequestId

text \<open>
  The \<open>Client\<close>: \<open>responseListeners\<close> is the \<open>Map\<close> from request identifiers to
  listeners; a listener returns or throws. \<open>logged\<close> and \<open>invoked\<close> record the effects
  of message handling: the lines logged, and the listener calls made (the request
  identifier and the message passed).
\<close>

record Client =
  responseListeners :: "jsstring \<rightharpoonup> (jsvalue \<Rightarrow> error option)"
  logged :: "logLine list"
  invoked :: "(jsstring \<times> jsvalue) list"

text \<open>
  \<open>this.responseListeners.get(requestId)\<close>: the keys of the map are strings, so only a
  string can be found.
\<close>

fun getListener :: "Client \<Rightarrow> jsvalue \<Rightarrow> (jsstring \<times> (jsvalue \<Rightarrow> error option)) option" where
  "getListener client (JString requestId) =
     (case responseListeners client requestId of
        None \<Rightarrow> None
      | Some listener \<Rightarrow> Some (requestId, listener))"
| "getListener client v = None"

text \<open>\<open>Client.onMessage\<close>, lines 98 to 111.\<close>

definition onMessage :: "Client \<Rightarrow> jsvalue \<Rightarrow> error + Client" where
  "onMessage client incomingMessage =
     (case getProperty incomingMessage (js ''requestId'') of
        Inl e \<Rightarrow> Inl e
      | Inr requestId \<Rightarrow>
          (if \<not> jsTruthy requestId then
             Inr (client\<lparr> logged := logged client @ [MessageWithoutRequestId] \<rparr>)
           else
             (case getListener client requestId of
                None \<Rightarrow> Inr client
              | Some (key, listener) \<Rightarrow>
                  (case listener incomingMessage of
                     Some e \<Rightarrow> Inl e
                   | None \<Rightarrow> Inr (client\<lparr> invoked := invoked client @ [(key, incomingMessage)] \<rparr>)))))"

text \<open>
  The handler of the socket's \<open>message\<close> event, lines 17 to 33. \<open>decodeMsgPack\<close> is the
  decoder of the \<open>msgpack-lite\<close> library, a parameter of the model. \<open>Inl\<close> is an
  exception that leaves the handler.
\<close>

definition handleMessage ::
  "(bytes \<Rightarrow> error + jsvalue) \<Rightarrow> Client \<Rightarrow> bytes \<Rightarrow> bool \<Rightarrow> error + Client" where
  "handleMessage decodeMsgPack client messageData isBinary =
     (if \<not> isBinary then
        Inr (client\<lparr> logged := logged client @ [UnexpectedStringMessage messageData] \<rparr>)
      else
        (case decodeMsgPack messageData of
           Inl e \<Rightarrow> Inr (client\<lparr> logged := logged client @ [FailedToDecode e] \<rparr>)
         | Inr incomingMessage \<Rightarrow> onMessage client incomingMessage))"

text \<open>
  A decoder for the one-byte messages of MessagePack that the examples use: \<open>0xC0\<close> is
  \<open>nil\<close> (decoded to \<open>null\<close>), \<open>0xC2\<close> and \<open>0xC3\<close> are \<open>false\<close> and \<open>true\<close>, \<open>0x80\<close> is
  the empty map; \<open>0xC1\<close> is never used in the format and is refused.
\<close>

definition sampleDecodeMsgPack :: "bytes \<Rightarrow> error + jsvalue" where
  "sampleDecodeMsgPack messageData =
     (if messageData = [0xC0] then Inr JNull
      else if messageData = [0xC2] then Inr (JBool False)
      else if messageData = [0xC3] then Inr (JBool True)
      else if messageData = [0x80] then Inr (JObject [])
      else Inl (CollaboratorError (js ''Invalid type'')))"

definition newClient :: Client where
  "newClient = \<lparr> responseListeners = Map.empty, logged = [], invoked = [] \<rparr>"

section \<open>Properties of the rounding\<close>



lemma roundHalfEven_of_int [simp]: "roundHalfEven (of_int m) = m"
  by (simp add: roundHalfEven_def)

lemma roundHalfEven_near: "\<bar>of_int (roundHalfEven y) - y\<bar> \<le> 1/2"
  unfolding roundHalfEven_def Let_def
  by (auto split: if_splits)

lemma lastBitExponent_le_zero:
  assumes "\<bar>x\<bar> < 2 ^ p"
  shows "lastBitExponent p n x \<le> 0"
proof -
  have "\<bar>x\<bar> * 2 ^ n < 2 ^ p * 2 ^ n"
    using assms by simp
  then have "\<bar>x\<bar> * 2 ^ n < 2 ^ (n + p)"
    by (simp add: power_add mult.commute)
  then have "\<lfloor>\<bar>x\<bar> * 2 ^ n\<rfloor> < 2 ^ (n + p)"
    by (simp add: floor_less_iff)
  then have "bitlen \<lfloor>\<bar>x\<bar> * 2 ^ n\<rfloor> \<le> int (n + p)"
    unfolding bitlen_le_iff_power nat_int by simp
  then show ?thesis
    by (simp add: lastBitExponent_def)
qed






lemma roundToFormat_of_int:
  assumes "\<bar>m\<bar> < 2 ^ p"
  shows "roundToFormat p n (of_int m) = of_int m"
proof -
  let ?e = "lastBitExponent p n (of_int m)"
  have "\<bar>real_of_int m\<bar> < 2 ^ p"
    using assms by (metis of_int_abs of_int_less_iff of_int_numeral of_int_power)
  then have e: "?e \<le> 0"
    by (rule lastBitExponent_le_zero)
  let ?k = "nat (- ?e)"
  have "real_of_int m * 2 ^ ?k = of_int (m * 2 ^ ?k)"
    by simp
  then have "roundHalfEven (real_of_int m * 2 ^ ?k) = m * 2 ^ ?k"
    by (simp only: roundHalfEven_of_int)
  then have "of_int (roundHalfEven (real_of_int m * 2 ^ ?k)) / 2 ^ ?k = real_of_int m"
    by simp
  with e show ?thesis
    by (cases "?e = 0") (simp_all add: roundToFormat_def Let_def)
qed




lemma toDouble_of_int: "\<bar>m\<bar> < 2 ^ 53 \<Longrightarrow> toDouble (of_int m) = of_int m"
  unfolding toDouble_def by (rule roundToFormat_of_int)

lemma toDouble_zero [simp]: "toDouble 0 = 0"
  using toDouble_of_int [of 0] by simp

lemma toDouble_one [simp]: "toDouble 1 = 1"
  using toDouble_of_int [of 1] by simp

lemma toDouble_numeral [simp]:
  "(numeral k :: int) < 2 ^ 53 \<Longrightarrow> toDouble (numeral k) = numeral k"
  using toDouble_of_int [of "numeral k"] by simp

text \<open>
  The exponent of the last bit, determined by a bracket of the magnitude; this evaluates
  \<open>toDouble\<close> at a given number.
\<close>

lemma lastBitExponent_eq:
  assumes "2 ^ (p - 1) \<le> \<bar>x\<bar> * 2 ^ k" and "\<bar>x\<bar> * 2 ^ k < 2 ^ p" and "k \<le> n" and "0 < p"
  shows "lastBitExponent p n x = - int k"
proof -
  let ?b = "\<lfloor>\<bar>x\<bar> * 2 ^ n\<rfloor>"
  have split: "\<bar>x\<bar> * 2 ^ n = \<bar>x\<bar> * 2 ^ k * 2 ^ (n - k)"
    using assms(3) by (simp flip: power_add)
  have "(2::real) ^ (p - 1) * 2 ^ (n - k) \<le> \<bar>x\<bar> * 2 ^ k * 2 ^ (n - k)"
    using assms(1) by simp
  then have "(2::real) ^ (p - 1 + (n - k)) \<le> \<bar>x\<bar> * 2 ^ n"
    by (simp add: split power_add)
  then have "of_int (2 ^ (p - 1 + (n - k))) \<le> \<bar>x\<bar> * 2 ^ n"
    by simp
  then have low: "2 ^ (p - 1 + (n - k)) \<le> ?b"
    by (simp only: le_floor_iff)
  have "\<bar>x\<bar> * 2 ^ k * 2 ^ (n - k) < 2 ^ p * 2 ^ (n - k)"
    using assms(2) by simp
  then have "\<bar>x\<bar> * 2 ^ n < 2 ^ (p + (n - k))"
    by (simp add: split power_add)
  then have "\<bar>x\<bar> * 2 ^ n < of_int (2 ^ (p + (n - k)))"
    by simp
  then have high: "?b < 2 ^ (p + (n - k))"
    by (simp only: floor_less_iff)
  have "bitlen ?b \<le> int (p + (n - k))"
    unfolding bitlen_le_iff_power nat_int using high by simp
  moreover have "int (p + (n - k)) \<le> bitlen ?b"
    unfolding bitlen_ge_iff_power nat_int using low assms(4)
    by (simp add: add.commute)
  ultimately have "bitlen ?b = int (p + (n - k))"
    by simp
  then show ?thesis
    using assms(3) by (simp add: lastBitExponent_def)
qed

lemma toDouble_at:
  assumes "2 ^ 52 \<le> \<bar>x\<bar> * 2 ^ k" and "\<bar>x\<bar> * 2 ^ k < 2 ^ 53" and "0 < k" and "k \<le> 1074"
  shows "toDouble x = of_int (roundHalfEven (x * 2 ^ k)) / 2 ^ k"
proof -
  from lastBitExponent_eq [of 53 x k 1074] assms
  have "lastBitExponent 53 1074 x = - int k"
    by simp
  with assms(3) show ?thesis
    by (simp add: toDouble_def roundToFormat_def Let_def)
qed

lemma toDouble_tenth: "toDouble 0.1 = 3602879701896397 / 36028797018963968"
  by (simp add: toDouble_at [where k = 56] roundHalfEven_def)




section \<open>Properties of the ASCII codec\<close>

lemma encodeAscii_loop_ok:
  "i \<le> length s \<Longrightarrow> length buffer = length s \<Longrightarrow> \<forall>c \<in> set (drop i s). c < 128 \<Longrightarrow>
   encodeAscii_loop s i buffer = Inr (take i buffer @ map ucast (drop i s))"
proof (induction s i buffer rule: encodeAscii_loop.induct)
  case (1 s i buffer)
  show ?case
  proof (cases "i < length s")
    case False
    with "1.prems" show ?thesis by (subst encodeAscii_loop.simps) simp
  next
    case True
    then have d: "drop i s = s ! i # drop (Suc i) s"
      by (simp add: Cons_nth_drop_Suc)
    with "1.prems" have small: "\<not> s ! i \<ge> 128" and rest: "\<forall>c \<in> set (drop (i + 1) s). c < 128"
      by (auto simp: not_le)
    have "encodeAscii_loop s (i + 1) (buffer[i := ucast (s ! i)])
            = Inr (take (i + 1) (buffer[i := ucast (s ! i)]) @ map ucast (drop (i + 1) s))"
      using "1.IH" [OF True refl small] True "1.prems" rest by simp
    moreover have "take (i + 1) (buffer[i := ucast (s ! i)]) = take i buffer @ [ucast (s ! i)]"
      using True "1.prems" by (simp add: take_Suc_conv_app_nth)
    ultimately show ?thesis
      using True small d by (simp add: encodeAscii_loop.simps [of s i buffer])
  qed
qed

lemma encodeAscii_loop_throws:
  "\<exists>c \<in> set (drop i s). c \<ge> 128 \<Longrightarrow> \<exists>e. encodeAscii_loop s i buffer = Inl e"
proof (induction s i buffer rule: encodeAscii_loop.induct)
  case (1 s i buffer)
  from "1.prems" have lt: "i < length s"
    by (cases "i < length s") auto
  then have d: "drop i s = s ! i # drop (Suc i) s"
    by (simp add: Cons_nth_drop_Suc)
  show ?case
  proof (cases "s ! i \<ge> 128")
    case True
    with lt show ?thesis by (simp add: encodeAscii_loop.simps [of s i buffer])
  next
    case False
    with "1.prems" d have "\<exists>c \<in> set (drop (i + 1) s). c \<ge> 128" by auto
    from "1.IH" [OF lt refl False this] obtain e
      where "encodeAscii_loop s (i + 1) (buffer[i := ucast (s ! i)]) = Inl e" by blast
    with lt False show ?thesis
      by (simp add: encodeAscii_loop.simps [of s i buffer])
  qed
qed

lemma encodeAscii_ok:
  "\<forall>c \<in> set s. c < 128 \<Longrightarrow> encodeAscii s = Inr (map ucast s)"
  using encodeAscii_loop_ok [of 0 s "replicate (length s) 0"]
  by (simp add: encodeAscii_def)

lemma encodeAscii_throws:
  "\<exists>c \<in> set s. c \<ge> 128 \<Longrightarrow> \<exists>e. encodeAscii s = Inl e"
  using encodeAscii_loop_throws [of 0 s "replicate (length s) 0"]
  by (simp add: encodeAscii_def)

lemma decodeAscii_loop_eq:
  "decodeAscii_loop buffer offset str = str @ textDecoder_decode (drop offset buffer)"
proof (induction buffer offset str rule: decodeAscii_loop.induct)
  case (1 buffer offset str)
  show ?case
  proof (cases "offset < length buffer")
    case False
    then show ?thesis
      by (simp add: textDecoder_decode_def decodeAscii_loop.simps [of buffer offset str])
  next
    case True
    have "take maxChunkSize (drop offset buffer) @ drop (offset + maxChunkSize) buffer
            = drop offset buffer"
      by (metis add.commute append_take_drop_id drop_drop)
    then have "textDecoder_decode (subarray buffer offset (offset + maxChunkSize))
                 @ textDecoder_decode (drop (offset + maxChunkSize) buffer)
               = textDecoder_decode (drop offset buffer)"
      by (simp add: textDecoder_decode_def subarray_def flip: map_append)
    with True "1.IH" [OF True] show ?thesis
      by (simp add: decodeAscii_loop.simps [of buffer offset str] writeChunk_def)
  qed
qed

lemma decodeAscii_eq: "decodeAscii buffer = map windows1252_byte buffer"
  by (simp add: decodeAscii_def decodeAscii_loop_eq textDecoder_decode_def)

lemma windows1252_ucast_ascii:
  fixes c :: "16 word"
  assumes "c < 128"
  shows "windows1252_byte (ucast c) = c"
proof -
  from assms have u: "unat c < 128" by (simp add: word_less_nat_alt)
  then have "unat (ucast c :: 8 word) = unat c"
    by (simp add: unsigned_ucast_eq take_bit_nat_eq_self)
  then have lt: "(ucast c :: 8 word) < 0x80"
    using u by (simp add: word_less_nat_alt)
  have "unat (ucast (ucast c :: 8 word) :: 16 word) = unat c"
    using u by (simp add: unsigned_ucast_eq unsigned_take_bit_eq take_bit_nat_eq_self)
  then have "(ucast (ucast c :: 8 word) :: 16 word) = c"
    by (simp only: word_unat_eq_iff)
  with lt show ?thesis by (simp add: windows1252_byte_def)
qed

text \<open>
  C10. For every string all of whose character codes are below 128, encoding succeeds
  and decoding the encoded bytes gives the string back; and \<open>encodeAscii\<close> throws exactly
  when some character code is 128 or greater.
\<close>

theorem encodeAscii_decodeAscii_roundtrip:
  "(list_all (\<lambda>c. unat c < 128) s \<longrightarrow>
      (\<exists>b. encodeAscii s = Inr b \<and> decodeAscii b = s)) \<and>
   ((\<exists>e. encodeAscii s = Inl e) \<longleftrightarrow> (\<exists>c \<in> set s. 128 \<le> unat c))"
proof (intro conjI impI)
  assume "list_all (\<lambda>c. unat c < 128) s"
  then have small: "\<forall>c \<in> set s. c < 128"
    by (simp add: list_all_iff word_less_nat_alt)
  then have "encodeAscii s = Inr (map ucast s)" by (rule encodeAscii_ok)
  moreover have "decodeAscii (map ucast s) = s"
    using small by (simp add: decodeAscii_eq windows1252_ucast_ascii map_idI)
  ultimately show "\<exists>b. encodeAscii s = Inr b \<and> decodeAscii b = s" by blast
next
  show "(\<exists>e. encodeAscii s = Inl e) \<longleftrightarrow> (\<exists>c \<in> set s. 128 \<le> unat c)"
  proof
    assume thrown: "\<exists>e. encodeAscii s = Inl e"
    show "\<exists>c \<in> set s. 128 \<le> unat c"
    proof (rule ccontr)
      assume "\<not> (\<exists>c \<in> set s. 128 \<le> unat c)"
      then have "\<forall>c \<in> set s. c < 128"
        by (auto simp: word_less_nat_alt not_le)
      then have "encodeAscii s = Inr (map ucast s)" by (rule encodeAscii_ok)
      with thrown show False by simp
    qed
  next
    assume "\<exists>c \<in> set s. 128 \<le> unat c"
    then have "\<exists>c \<in> set s. c \<ge> 128"
      by (auto simp: word_le_nat_alt)
    then show "\<exists>e. encodeAscii s = Inl e" by (rule encodeAscii_throws)
  qed
qed

theorem encodeAscii_decodeAscii_roundtrip_witness:
  "list_all (\<lambda>c. unat c < 128) (js ''Hi'') \<and>
   encodeAscii (js ''Hi'') = Inr [72, 105] \<and> decodeAscii [72, 105] = js ''Hi'' \<and>
   (\<exists>e. encodeAscii [0x48, 0xE9] = Inl e)"
proof -
  have small: "list_all (\<lambda>c. unat c < 128) (js ''Hi'')"
    by (simp add: js_def)
  from encodeAscii_decodeAscii_roundtrip [of "js ''Hi''"] small
  obtain b where b: "encodeAscii (js ''Hi'') = Inr b" "decodeAscii b = js ''Hi''"
    by blast
  have enc: "encodeAscii (js ''Hi'') = Inr [72, 105]"
    by (simp add: encodeAscii_def js_def encodeAscii_loop.simps)
  have "\<exists>c \<in> set [0x48, 0xE9 :: 16 word]. 128 \<le> unat c" by simp
  with encodeAscii_decodeAscii_roundtrip [of "[0x48, 0xE9]"]
  have "\<exists>e. encodeAscii [0x48, 0xE9] = Inl e" by blast
  with small b enc show ?thesis by simp
qed

section \<open>Properties of voice selection\<close>

lemma extendDeep_default_language [simp]:
  "language (extendDeep defaultSynthesisOptions options) = language options"
  by (simp add: extendDeep_def defaultSynthesisOptions_def orElse_def split: option.splits)

lemma extendDeep_default_voice [simp]:
  "voice (extendDeep defaultSynthesisOptions options) = voice options"
  by (simp add: extendDeep_def defaultSynthesisOptions_def orElse_def split: option.splits)

lemma extendDeep_default_voiceGender [simp]:
  "voiceGender (extendDeep defaultSynthesisOptions options) = voiceGender options"
  by (simp add: extendDeep_def defaultSynthesisOptions_def orElse_def split: option.splits)

lemma extendDeep_default_engine [simp]:
  "engine (extendDeep defaultSynthesisOptions options) = engine options"
  by (simp add: extendDeep_def defaultSynthesisOptions_def orElse_def split: option.splits)

lemma filterByLanguage_eq:
  "languageCode \<noteq> [] \<Longrightarrow>
   filterByLanguage loc languageCode loaded =
     (let exact = filter (\<lambda>v. languageCode \<in> set (languages v)) loaded in
      if exact = [] \<and> dash \<in> set languageCode
      then filter (\<lambda>v. getShortLanguageCode loc languageCode \<in> set (languages v)) loaded
      else exact)"
  by (simp add: filterByLanguage_def Let_def)

lemma filterByLanguage_short_code:
  "languageCode \<noteq> [] \<Longrightarrow> dash \<notin> set languageCode \<Longrightarrow>
   filterByLanguage loc languageCode loaded = filter (\<lambda>v. languageCode \<in> set (languages v)) loaded"
  by (simp add: filterByLanguage_eq Let_def)

lemma filterByGender_subset: "set (filterByGender loc g voices) \<subseteq> set voices"
  by (auto simp: filterByGender_def Let_def)

lemma filterByName_subset: "set (filterByName loc v voices) \<subseteq> set voices"
  by (auto simp: filterByName_def Let_def)

lemma filterByGender_none [simp]: "\<not> truthy g \<Longrightarrow> filterByGender loc g voices = voices"
  by (simp add: filterByGender_def)

lemma filterByName_none [simp]: "\<not> truthy v \<Longrightarrow> filterByName loc v voices = voices"
  by (simp add: filterByName_def)

lemma requestVoiceList_unfold:
  assumes "loadVoiceList src (extendDeep defaultVoiceListRequestOptions options) = Inr loaded"
      and "truthy (language options)"
      and "normalizeLanguageCode loc (the (language options)) = languageCode"
  shows "requestVoiceList loc src options =
     Inr \<lparr> voiceList =
             filterByName loc (voice options)
               (filterByGender loc (voiceGender options) (filterByLanguage loc languageCode loaded)),
           bestMatchingVoice =
             pickBestMatchingVoice loc languageCode
               (filterByName loc (voice options)
                 (filterByGender loc (voiceGender options) (filterByLanguage loc languageCode loaded))) \<rparr>"
  using assms by (simp add: requestVoiceList_def defaultVoiceListRequestOptions_def Let_def)

lemma pickBestMatchingVoice_single [simp]: "pickBestMatchingVoice loc languageCode [v] = Some v"
  by (simp add: pickBestMatchingVoice_def)

lemma pickBestMatchingVoice_empty [simp]: "pickBestMatchingVoice loc languageCode [] = None"
  by (simp add: pickBestMatchingVoice_def)

lemma pickBestMatchingVoice_long:
  assumes "length voices > 1"
      and "shortLanguageCodeToLong loc languageCode = Some long" and "long \<noteq> []"
  shows "pickBestMatchingVoice loc languageCode voices =
     (case List.find (\<lambda>v. long \<in> set (languages v)) voices of
        Some found \<Rightarrow> Some found | None \<Rightarrow> Some (hd voices))"
  using assms
  by (cases voices) (simp_all add: pickBestMatchingVoice_def truthy_def split: option.splits)

text \<open>
  C2. With a language specified (its normalized code is not empty), the voices are
  filtered by exact membership of the normalized code in each voice's languages; if no
  voice is left and the code contains a dash, they are filtered by the shortened code
  instead; the gender and name filters then apply to that list. For the voices
  \<open>a\<close> with languages \<open>en-US\<close>, \<open>en\<close> and \<open>b\<close> with languages \<open>en-GB\<close>, \<open>en\<close> and the
  request language \<open>en-GB\<close> (no gender, no name pattern), the best matching voice is \<open>b\<close>.
\<close>

theorem requestVoiceList_language_filter:
  assumes "loadVoiceList src (extendDeep defaultVoiceListRequestOptions options) = Inr loaded"
      and "truthy (language options)"
      and "normalizeLanguageCode loc (the (language options)) = languageCode"
      and "languageCode \<noteq> []"
  shows "\<exists>r. requestVoiceList loc src options = Inr r \<and>
     voiceList r =
       filterByName loc (voice options)
         (filterByGender loc (voiceGender options)
           (let exact = filter (\<lambda>v. languageCode \<in> set (languages v)) loaded in
            if exact = [] \<and> dash \<in> set languageCode
            then filter (\<lambda>v. getShortLanguageCode loc languageCode \<in> set (languages v)) loaded
            else exact)) \<and>
     (languageCode = js ''en-GB'' \<and> loaded = [a, b] \<and>
      languages a = [js ''en-US'', js ''en''] \<and> languages b = [js ''en-GB'', js ''en''] \<and>
      \<not> truthy (voiceGender options) \<and> \<not> truthy (voice options)
      \<longrightarrow> bestMatchingVoice r = Some b)"
proof -
  define claimed where "claimed =
     (let exact = filter (\<lambda>v. languageCode \<in> set (languages v)) loaded in
      if exact = [] \<and> dash \<in> set languageCode
      then filter (\<lambda>v. getShortLanguageCode loc languageCode \<in> set (languages v)) loaded
      else exact)"
  define remaining where "remaining =
     filterByName loc (voice options) (filterByGender loc (voiceGender options) claimed)"
  have bylang: "filterByLanguage loc languageCode loaded = claimed"
    unfolding claimed_def using assms(4) by (rule filterByLanguage_eq)
  have result: "requestVoiceList loc src options =
      Inr \<lparr> voiceList = remaining,
            bestMatchingVoice = pickBestMatchingVoice loc languageCode remaining \<rparr>"
    using requestVoiceList_unfold [OF assms(1-3)] by (simp add: bylang remaining_def)
  have particular: "pickBestMatchingVoice loc languageCode remaining = Some b"
    if "languageCode = js ''en-GB''" "loaded = [a, b]"
       "languages a = [js ''en-US'', js ''en'']" "languages b = [js ''en-GB'', js ''en'']"
       "\<not> truthy (voiceGender options)" "\<not> truthy (voice options)"
  proof -
    have "claimed = [b]"
      using that(1-4) by (simp add: claimed_def Let_def js_def)
    with that(5,6) show ?thesis by (simp add: remaining_def)
  qed
  show ?thesis
  proof (intro exI conjI impI)
    show "requestVoiceList loc src options =
      Inr \<lparr> voiceList = remaining,
            bestMatchingVoice = pickBestMatchingVoice loc languageCode remaining \<rparr>"
      by (rule result)
    show "voiceList \<lparr> voiceList = remaining,
            bestMatchingVoice = pickBestMatchingVoice loc languageCode remaining \<rparr> =
       filterByName loc (voice options)
         (filterByGender loc (voiceGender options)
           (let exact = filter (\<lambda>v. languageCode \<in> set (languages v)) loaded in
            if exact = [] \<and> dash \<in> set languageCode
            then filter (\<lambda>v. getShortLanguageCode loc languageCode \<in> set (languages v)) loaded
            else exact))"
      by (simp add: remaining_def claimed_def)
  next
    assume "languageCode = js ''en-GB'' \<and> loaded = [a, b] \<and>
      languages a = [js ''en-US'', js ''en''] \<and> languages b = [js ''en-GB'', js ''en''] \<and>
      \<not> truthy (voiceGender options) \<and> \<not> truthy (voice options)"
    then have "pickBestMatchingVoice loc languageCode remaining = Some b"
      using particular by blast
    then show "bestMatchingVoice \<lparr> voiceList = remaining,
            bestMatchingVoice = pickBestMatchingVoice loc languageCode remaining \<rparr> = Some b"
      by simp
  qed
qed

theorem requestVoiceList_language_filter_witness:
  "\<exists>r. requestVoiceList sampleLocale
          (sampleSources [mkVoice ''a'' [''en-US'', ''en''], mkVoice ''b'' [''en-GB'', ''en'']])
          (noOptions\<lparr>language := Some (js ''en-GB'')\<rparr>) = Inr r \<and>
       voiceList r = [mkVoice ''b'' [''en-GB'', ''en'']] \<and>
       bestMatchingVoice r = Some (mkVoice ''b'' [''en-GB'', ''en''])"
proof -
  let ?a = "mkVoice ''a'' [''en-US'', ''en'']" and ?b = "mkVoice ''b'' [''en-GB'', ''en'']"
  let ?options = "noOptions\<lparr>language := Some (js ''en-GB'')\<rparr>"
  have 1: "loadVoiceList (sampleSources [?a, ?b]) (extendDeep defaultVoiceListRequestOptions ?options)
             = Inr [?a, ?b]"
    by (simp add: sampleSources_def)
  have 2: "truthy (language ?options)"
    by (simp add: truthy_def js_def)
  have 3: "normalizeLanguageCode sampleLocale (the (language ?options)) = js ''en-GB''"
    by (simp add: sampleLocale_def)
  have 4: "js ''en-GB'' \<noteq> []"
    by (simp add: js_def)
  from requestVoiceList_language_filter [OF 1 2 3 4, where a = ?a and b = ?b]
  show ?thesis
    by (simp add: mkVoice_def js_def noOptions_def truthy_def dash_def Let_def)
qed

lemma find_first_index:
  assumes "i < length xs" and "P (xs ! i)" and "\<forall>j<i. \<not> P (xs ! j)"
  shows "List.find P xs = Some (xs ! i)"
  using assms by (subst find_Some_iff) blast

lemma find_none: "\<forall>x \<in> set xs. \<not> P x \<Longrightarrow> List.find P xs = None"
  by (simp add: find_None_iff)

text \<open>
  C1 as stated fails: for the request language \<open>en\<close> with no voice declaring exactly
  \<open>en\<close>, the language filter leaves no voice at all, so the voice declaring the long
  form \<open>en-US\<close> is not selected.
\<close>

theorem requestVoiceList_long_form_counterexample:
  "requestVoiceList sampleLocale
       (sampleSources [mkVoice ''a'' [''en-GB''], mkVoice ''b'' [''en-US'']])
       (noOptions\<lparr>language := Some (js ''en'')\<rparr>)
     = Inr \<lparr> voiceList = [], bestMatchingVoice = None \<rparr> \<and>
   \<not> (\<exists>r. requestVoiceList sampleLocale
       (sampleSources [mkVoice ''a'' [''en-GB''], mkVoice ''b'' [''en-US'']])
       (noOptions\<lparr>language := Some (js ''en'')\<rparr>) = Inr r \<and>
       bestMatchingVoice r = Some (mkVoice ''b'' [''en-US'']))"
proof -
  have "requestVoiceList sampleLocale
       (sampleSources [mkVoice ''a'' [''en-GB''], mkVoice ''b'' [''en-US'']])
       (noOptions\<lparr>language := Some (js ''en'')\<rparr>)
     = Inr \<lparr> voiceList = [], bestMatchingVoice = None \<rparr>"
    by (simp add: requestVoiceList_def defaultVoiceListRequestOptions_def sampleLocale_def sampleSources_def noOptions_def
        mkVoice_def js_def truthy_def Let_def filterByLanguage_def filterByGender_def
        filterByName_def pickBestMatchingVoice_def dash_def)
  then show ?thesis by simp
qed

text \<open>
  C1, amended. For a request whose normalized language code is a short code (not
  empty, no dash) with a non-empty long form in the table: every voice that remains
  after filtering is a loaded voice that declares the short code itself; if no voice
  remains, none is selected; if exactly one remains, it is selected; if more than one
  remains, the first remaining voice (in list order) that declares the long form is
  selected, and the first remaining voice when none declares it.
\<close>

theorem requestVoiceList_prefers_long_form:
  assumes "loadVoiceList src (extendDeep defaultVoiceListRequestOptions options) = Inr loaded"
      and "truthy (language options)"
      and "normalizeLanguageCode loc (the (language options)) = languageCode"
      and "languageCode \<noteq> []" and "dash \<notin> set languageCode"
      and "shortLanguageCodeToLong loc languageCode = Some long" and "long \<noteq> []"
  shows "\<exists>r. requestVoiceList loc src options = Inr r \<and>
     (\<forall>v \<in> set (voiceList r). v \<in> set loaded \<and> languageCode \<in> set (languages v)) \<and>
     (voiceList r = [] \<longrightarrow> bestMatchingVoice r = None) \<and>
     (length (voiceList r) = 1 \<longrightarrow> bestMatchingVoice r = Some (voiceList r ! 0)) \<and>
     (length (voiceList r) > 1 \<longrightarrow>
        (\<forall>i < length (voiceList r).
            long \<in> set (languages (voiceList r ! i)) \<and>
            (\<forall>j<i. long \<notin> set (languages (voiceList r ! j)))
            \<longrightarrow> bestMatchingVoice r = Some (voiceList r ! i)) \<and>
        ((\<forall>v \<in> set (voiceList r). long \<notin> set (languages v))
            \<longrightarrow> bestMatchingVoice r = Some (voiceList r ! 0)))"
proof -
  define remaining where "remaining =
     filterByName loc (voice options)
       (filterByGender loc (voiceGender options) (filterByLanguage loc languageCode loaded))"
  define best where "best = pickBestMatchingVoice loc languageCode remaining"
  have result: "requestVoiceList loc src options =
      Inr \<lparr> voiceList = remaining, bestMatchingVoice = best \<rparr>"
    using requestVoiceList_unfold [OF assms(1-3)] by (simp add: remaining_def best_def)
  have "set remaining \<subseteq> set (filterByLanguage loc languageCode loaded)"
    unfolding remaining_def using filterByName_subset filterByGender_subset by blast
  then have declared: "\<forall>v \<in> set remaining. v \<in> set loaded \<and> languageCode \<in> set (languages v)"
    using assms(4,5) by (auto simp: filterByLanguage_short_code)
  have none: "remaining = [] \<longrightarrow> best = None"
    by (simp add: best_def)
  have one: "length remaining = 1 \<longrightarrow> best = Some (remaining ! 0)"
    by (cases remaining) (auto simp: best_def)
  have more: "best = (case List.find (\<lambda>v. long \<in> set (languages v)) remaining of
        Some found \<Rightarrow> Some found | None \<Rightarrow> Some (hd remaining))"
    if "length remaining > 1"
    unfolding best_def using that assms(6,7) by (rule pickBestMatchingVoice_long)
  have first: "best = Some (remaining ! i)"
    if "length remaining > 1" "i < length remaining" "long \<in> set (languages (remaining ! i))"
       "\<forall>j<i. long \<notin> set (languages (remaining ! j))" for i
    using more [OF that(1)] find_first_index [of i remaining "\<lambda>v. long \<in> set (languages v)"] that
    by simp
  have fallback: "best = Some (remaining ! 0)"
    if "length remaining > 1" "\<forall>v \<in> set remaining. long \<notin> set (languages v)"
    using more [OF that(1)] find_none [of remaining "\<lambda>v. long \<in> set (languages v)"] that
    by (cases remaining) simp_all
  show ?thesis
    unfolding result
    using declared none one first fallback by (intro exI [of _ "\<lparr> voiceList = remaining, bestMatchingVoice = best \<rparr>"]) simp
qed

theorem requestVoiceList_prefers_long_form_witness:
  "\<exists>r. requestVoiceList sampleLocale
          (sampleSources [mkVoice ''a'' [''en-GB'', ''en''], mkVoice ''b'' [''en-US'', ''en'']])
          (noOptions\<lparr>language := Some (js ''en'')\<rparr>) = Inr r \<and>
       voiceList r = [mkVoice ''a'' [''en-GB'', ''en''], mkVoice ''b'' [''en-US'', ''en'']] \<and>
       bestMatchingVoice r = Some (mkVoice ''b'' [''en-US'', ''en''])"
proof -
  let ?a = "mkVoice ''a'' [''en-GB'', ''en'']" and ?b = "mkVoice ''b'' [''en-US'', ''en'']"
  let ?options = "noOptions\<lparr>language := Some (js ''en'')\<rparr>"
  have 1: "loadVoiceList (sampleSources [?a, ?b]) (extendDeep defaultVoiceListRequestOptions ?options)
             = Inr [?a, ?b]"
    by (simp add: sampleSources_def)
  have 2: "truthy (language ?options)"
    by (simp add: truthy_def js_def)
  have 3: "normalizeLanguageCode sampleLocale (the (language ?options)) = js ''en''"
    by (simp add: sampleLocale_def)
  have 4: "js ''en'' \<noteq> []" and 5: "dash \<notin> set (js ''en'')"
    by (simp_all add: js_def dash_def)
  have 6: "shortLanguageCodeToLong sampleLocale (js ''en'') = Some (js ''en-US'')"
    by (simp add: sampleLocale_def)
  have 7: "js ''en-US'' \<noteq> []"
    by (simp add: js_def)
  from requestVoiceList_prefers_long_form [OF 1 2 3 4 5 6 7]
  obtain r where r: "requestVoiceList sampleLocale (sampleSources [?a, ?b]) ?options = Inr r"
    and pick: "length (voiceList r) > 1 \<longrightarrow>
        (\<forall>i < length (voiceList r).
            js ''en-US'' \<in> set (languages (voiceList r ! i)) \<and>
            (\<forall>j<i. js ''en-US'' \<notin> set (languages (voiceList r ! j)))
            \<longrightarrow> bestMatchingVoice r = Some (voiceList r ! i))"
    by blast
  have "\<exists>best. requestVoiceList sampleLocale (sampleSources [?a, ?b]) ?options
          = Inr \<lparr> voiceList = [?a, ?b], bestMatchingVoice = best \<rparr>"
    by (simp add: requestVoiceList_def defaultVoiceListRequestOptions_def sampleLocale_def sampleSources_def noOptions_def
        mkVoice_def js_def truthy_def Let_def filterByLanguage_def filterByGender_def
        filterByName_def)
  with r have vl: "voiceList r = [?a, ?b]" by auto
  have a: "1 < length (voiceList r)"
    by (simp add: vl)
  have b: "js ''en-US'' \<in> set (languages (voiceList r ! 1))"
    by (simp add: vl mkVoice_def js_def)
  have c: "\<forall>j<1. js ''en-US'' \<notin> set (languages (voiceList r ! j))"
    by (simp add: vl mkVoice_def js_def)
  from pick a b c have "bestMatchingVoice r = Some (voiceList r ! 1)"
    by blast
  with r vl show ?thesis by simp
qed

section \<open>Properties of the numeric parameter translation\<close>










section \<open>Properties of the engine selection\<close>

lemma collectLangCodes_invariant:
  "fst acc = set (snd acc) \<Longrightarrow>
   fst (collectLangCodes codes acc) = set (snd (collectLangCodes codes acc)) \<and>
   set (snd (collectLangCodes codes acc)) = set (snd acc) \<union> set codes"
proof (induction codes arbitrary: acc)
  case Nil
  then show ?case by simp
next
  case (Cons code rest)
  obtain seen listed where acc: "acc = (seen, listed)" by (cases acc)
  with Cons.prems have seen: "seen = set listed" by simp
  show ?case
  proof (cases "code \<in> seen")
    case True
    with Cons.IH [of "(seen, listed)"] seen acc show ?thesis by auto
  next
    case False
    with Cons.IH [of "(insert code seen, listed @ [code])"] seen acc show ?thesis by auto
  qed
qed

lemma getAllLangCodes_loop_invariant:
  "fst acc = set (snd acc) \<Longrightarrow>
   fst (getAllLangCodes_loop voices acc) = set (snd (getAllLangCodes_loop voices acc)) \<and>
   set (snd (getAllLangCodes_loop voices acc)) = set (snd acc) \<union> (\<Union>v \<in> set voices. set (languages v))"
proof (induction voices arbitrary: acc)
  case Nil
  then show ?case by simp
next
  case (Cons v rest)
  from collectLangCodes_invariant [OF Cons.prems, of "languages v"]
  have step: "fst (collectLangCodes (languages v) acc) = set (snd (collectLangCodes (languages v) acc))"
    and grown: "set (snd (collectLangCodes (languages v) acc)) = set (snd acc) \<union> set (languages v)"
    by simp_all
  from Cons.IH [OF step] grown show ?case by auto
qed

lemma set_getAllLangCodesFromVoiceList:
  "set (getAllLangCodesFromVoiceList voices) = (\<Union>v \<in> set voices. set (languages v))"
  using getAllLangCodes_loop_invariant [of "({}, [])" voices]
  by (simp add: getAllLangCodesFromVoiceList_def)

lemma selectBestOfflineEngineForLanguage_eq:
  "selectBestOfflineEngineForLanguage loc src lang =
     (let code = normalizeLanguageCode loc lang in
      if \<exists>v \<in> set (vitsVoiceList src). code \<in> set (languages v) then vits
      else if \<exists>v \<in> set (fliteVoiceList src). code \<in> set (languages v) then flite
      else if \<exists>v \<in> set (picoVoiceList src). code \<in> set (languages v) then pico
      else espeak)"
  by (simp add: selectBestOfflineEngineForLanguage_def set_getAllLangCodesFromVoiceList Let_def)

lemma resolveLanguage_defined:
  assumes "\<not> truthy (voice options)" and "resolveLanguage env segments options = Inr options1"
  shows "\<exists>lang. language options1 = Some lang" and "voice options1 = voice options"
    and "engine options1 = engine options"
  using assms
  by (auto simp: resolveLanguage_def truthy_def split: if_splits sum.splits option.splits)

text \<open>
  C4. With no engine specified: if a voice is named, the call fails with the
  configuration error whatever the collaborators are (none of them is consulted for
  the result); otherwise, once the language is resolved (given, or detected), the
  engine is \<open>vits\<close> if some voice of the vits table declares the normalized language,
  else \<open>flite\<close> if some voice of the flite table does, else \<open>pico\<close> if some voice of the
  pico table does, else \<open>espeak\<close>, and the call goes on with that engine.
\<close>

theorem synthesizeSegments_engine_selection:
  assumes "engine options = None"
  shows "(truthy (voice options) \<longrightarrow>
            synthesizeSegments env segments options onSegment onSentence
              = Inl (VoiceWithoutEngine (the (voice options)))) \<and>
         (\<not> truthy (voice options) \<longrightarrow>
            (\<forall>options1.
               resolveLanguage env segments (extendDeep defaultSynthesisOptions options) = Inr options1 \<longrightarrow>
               (\<exists>lang chosen.
                  language options1 = Some lang \<and>
                  chosen =
                    (let code = normalizeLanguageCode (localeFns env) lang in
                     if \<exists>v \<in> set (vitsVoiceList (voiceSources env)). code \<in> set (languages v) then vits
                     else if \<exists>v \<in> set (fliteVoiceList (voiceSources env)). code \<in> set (languages v) then flite
                     else if \<exists>v \<in> set (picoVoiceList (voiceSources env)). code \<in> set (languages v) then pico
                     else espeak) \<and>
                  resolveEngine env options1 = Inr (options1\<lparr> engine := Some chosen \<rparr>) \<and>
                  synthesizeSegments env segments options onSegment onSentence
                    = synthesizeResolved env segments (options1\<lparr> engine := Some chosen \<rparr>)
                        onSegment onSentence)))"
proof (intro conjI impI allI)
  assume named: "truthy (voice options)"
  then have "resolveLanguage env segments (extendDeep defaultSynthesisOptions options)
               = Inr (extendDeep defaultSynthesisOptions options)"
    by (simp add: resolveLanguage_def)
  moreover have "resolveEngine env (extendDeep defaultSynthesisOptions options)
                   = Inl (VoiceWithoutEngine (the (voice options)))"
    using assms named by (simp add: resolveEngine_def)
  ultimately show "synthesizeSegments env segments options onSegment onSentence
                     = Inl (VoiceWithoutEngine (the (voice options)))"
    by (simp add: synthesizeSegments_def Let_def)
next
  fix options1
  assume unnamed: "\<not> truthy (voice options)"
    and resolved: "resolveLanguage env segments (extendDeep defaultSynthesisOptions options) = Inr options1"
  from unnamed have unnamed': "\<not> truthy (voice (extendDeep defaultSynthesisOptions options))"
    by simp
  from resolveLanguage_defined [OF unnamed' resolved]
  obtain lang where lang: "language options1 = Some lang"
    and v: "voice options1 = voice options" and e: "engine options1 = None"
    using assms by auto
  define chosen where "chosen =
     selectBestOfflineEngineForLanguage (localeFns env) (voiceSources env) lang"
  have eng: "resolveEngine env options1 = Inr (options1\<lparr> engine := Some chosen \<rparr>)"
    using lang v e unnamed by (simp add: resolveEngine_def chosen_def)
  have run: "synthesizeSegments env segments options onSegment onSentence
               = synthesizeResolved env segments (options1\<lparr> engine := Some chosen \<rparr>) onSegment onSentence"
    using resolved eng by (simp add: synthesizeSegments_def Let_def)
  have "chosen =
     (let code = normalizeLanguageCode (localeFns env) lang in
      if \<exists>v \<in> set (vitsVoiceList (voiceSources env)). code \<in> set (languages v) then vits
      else if \<exists>v \<in> set (fliteVoiceList (voiceSources env)). code \<in> set (languages v) then flite
      else if \<exists>v \<in> set (picoVoiceList (voiceSources env)). code \<in> set (languages v) then pico
      else espeak)"
    unfolding chosen_def by (rule selectBestOfflineEngineForLanguage_eq)
  with lang eng run show "\<exists>lang chosen.
      language options1 = Some lang \<and>
      chosen =
        (let code = normalizeLanguageCode (localeFns env) lang in
         if \<exists>v \<in> set (vitsVoiceList (voiceSources env)). code \<in> set (languages v) then vits
         else if \<exists>v \<in> set (fliteVoiceList (voiceSources env)). code \<in> set (languages v) then flite
         else if \<exists>v \<in> set (picoVoiceList (voiceSources env)). code \<in> set (languages v) then pico
         else espeak) \<and>
      resolveEngine env options1 = Inr (options1\<lparr> engine := Some chosen \<rparr>) \<and>
      synthesizeSegments env segments options onSegment onSentence
        = synthesizeResolved env segments (options1\<lparr> engine := Some chosen \<rparr>) onSegment onSentence"
    by blast
qed

theorem synthesizeSegments_engine_selection_witness:
  "synthesizeSegments (sampleEnv (\<lambda>k. False)) [js ''Hi.''] (noOptions\<lparr> voice := Some (js ''a'') \<rparr>) None None
     = Inl (VoiceWithoutEngine (js ''a'')) \<and>
   resolveEngine (sampleEnv (\<lambda>k. False)) ((extendDeep defaultSynthesisOptions noOptions)\<lparr> language := Some (js ''en'') \<rparr>)
     = Inr ((extendDeep defaultSynthesisOptions noOptions)\<lparr> language := Some (js ''en''), engine := Some flite \<rparr>) \<and>
   resolveEngine (sampleEnv (\<lambda>k. False))
       (extendDeep defaultSynthesisOptions (noOptions\<lparr> language := Some (js ''it'') \<rparr>))
     = Inr ((extendDeep defaultSynthesisOptions (noOptions\<lparr> language := Some (js ''it'') \<rparr>))\<lparr> engine := Some espeak \<rparr>)"
proof -
  let ?env = "sampleEnv (\<lambda>k. False)"
  have none: "engine (noOptions\<lparr> voice := Some (js ''a'') \<rparr>) = None" "engine noOptions = None"
    "engine (noOptions\<lparr> language := Some (js ''it'') \<rparr>) = None"
    by (simp_all add: noOptions_def)
  have named: "truthy (voice (noOptions\<lparr> voice := Some (js ''a'') \<rparr>))"
    by (simp add: truthy_def js_def)
  from synthesizeSegments_engine_selection [OF none(1), of ?env "[js ''Hi.'']" None None] named
  have a: "synthesizeSegments ?env [js ''Hi.''] (noOptions\<lparr> voice := Some (js ''a'') \<rparr>) None None
             = Inl (VoiceWithoutEngine (js ''a''))"
    by simp
  have unnamed: "\<not> truthy (voice noOptions)" "\<not> truthy (voice (noOptions\<lparr> language := Some (js ''it'') \<rparr>))"
    by (simp_all add: truthy_def noOptions_def)
  have detected: "resolveLanguage ?env [js ''Hi.''] (extendDeep defaultSynthesisOptions noOptions)
      = Inr ((extendDeep defaultSynthesisOptions noOptions)\<lparr> language := Some (js ''en'') \<rparr>)"
    by (simp add: resolveLanguage_def truthy_def noOptions_def sampleEnv_def)
  have given: "resolveLanguage ?env [js ''Hi.'']
        (extendDeep defaultSynthesisOptions (noOptions\<lparr> language := Some (js ''it'') \<rparr>))
      = Inr (extendDeep defaultSynthesisOptions (noOptions\<lparr> language := Some (js ''it'') \<rparr>))"
    by (simp add: resolveLanguage_def truthy_def js_def)
  have tables: "localeFns ?env = sampleLocale" "voiceSources ?env = sampleSources sampleVoices"
    by (simp_all add: sampleEnv_def)
  from synthesizeSegments_engine_selection [OF none(2), of ?env "[js ''Hi.'']" None None] unnamed(1) detected
  have b: "resolveEngine ?env ((extendDeep defaultSynthesisOptions noOptions)\<lparr> language := Some (js ''en'') \<rparr>)
      = Inr ((extendDeep defaultSynthesisOptions noOptions)\<lparr> language := Some (js ''en''), engine := Some flite \<rparr>)"
    by (simp add: Let_def tables sampleLocale_def sampleSources_def mkVoice_def js_def)
  from synthesizeSegments_engine_selection [OF none(3), of ?env "[js ''Hi.'']" None None] unnamed(2) given
  have c: "resolveEngine ?env (extendDeep defaultSynthesisOptions (noOptions\<lparr> language := Some (js ''it'') \<rparr>))
      = Inr ((extendDeep defaultSynthesisOptions (noOptions\<lparr> language := Some (js ''it'') \<rparr>))\<lparr> engine := Some espeak \<rparr>)"
    by (simp add: Let_def tables sampleLocale_def sampleSources_def mkVoice_def js_def)
  from a b c show ?thesis by (intro conjI)
qed

section \<open>Properties of the two loops\<close>

lemma notify_Inr: "notify callback ev st = Inr st1 \<Longrightarrow> st1 = st"
  by (auto simp: notify_def split: option.splits)

lemma sentenceStep_Inr:
  assumes "sentenceStep env options onSentence totalCount sentenceIndex sentence st = Inr st1"
  shows "\<exists>synthesized sentenceTimeline newOffset.
     synthesizeSegment env (trim sentence)
         (extendDeep options
            (noOptions\<lparr> postProcessing := (postProcessing noOptions)\<lparr> normalizeAudio := Some False \<rparr> \<rparr>))
       = Inr (synthesized, sentenceTimeline) \<and>
     cancelChecks st1 = cancelChecks st \<and>
     timelineAcc st1 = timelineAcc st \<and>
     segmentEntryTimeline st1 = segmentEntryTimeline st @
       [TimelineEntry (js ''sentence'') (trim sentence) (timeOffset st) newOffset
          (addTimeOffsetToTimeline env sentenceTimeline (timeOffset st))]"
proof -
  let ?opts = "extendDeep options
     (noOptions\<lparr> postProcessing := (postProcessing noOptions)\<lparr> normalizeAudio := Some False \<rparr> \<rparr>)"
  from assms obtain synthesized sentenceTimeline
    where syn: "synthesizeSegment env (trim sentence) ?opts = Inr (synthesized, sentenceTimeline)"
    by (cases "synthesizeSegment env (trim sentence) ?opts")
       (auto simp: sentenceStep_def Let_def)
  from assms syn obtain channel0 others
    where ch: "audioChannels synthesized = channel0 # others"
    by (cases "audioChannels synthesized") (auto simp: sentenceStep_def Let_def)
  from assms syn ch show ?thesis
    by (auto simp: sentenceStep_def Let_def dest!: notify_Inr)
qed






lemma synthesizeSegments_Inr:
  assumes "synthesizeSegments env segments options onSegment onSentence = Inr r"
  shows "\<exists>options1 options2 options3 st.
     resolveLanguage env segments (extendDeep defaultSynthesisOptions options) = Inr options1 \<and>
     resolveEngine env options1 = Inr options2 \<and>
     resolveVoice env options2 = Inr options3 \<and>
     segmentLoop env options3 onSegment onSentence (length segments) 0 segments initialLocals = Inr st \<and>
     r = finish env options3 st"
  using assms
  by (auto simp: synthesizeSegments_def synthesizeResolved_def Let_def split: sum.splits)










section \<open>Properties of the word filter\<close>

lemma wordsOnly_wordFilter: "wordsOnly env (wordFilter env tline)"
  by (simp add: wordsOnly_def wordFilter_def list_all_iff)

lemma isWord_not_punctuation:
  "isWord env t \<Longrightarrow> \<not> punctuationOnly env t \<and> \<not> whitespaceOnly t"
  by (simp add: isWord_def)

lemma wordsOnly_not_punctuation:
  assumes "wordsOnly env tline" and "map entryText shown = map entryText tline"
  shows "\<forall>w \<in> set shown. \<not> punctuationOnly env (entryText w) \<and> \<not> whitespaceOnly (entryText w)"
proof
  fix w
  assume "w \<in> set shown"
  then have "entryText w \<in> set (map entryText tline)"
    using assms(2) by (metis image_eqI set_map)
  then obtain v where "v \<in> set tline" and "entryText v = entryText w"
    by auto
  with assms(1) have "isWord env (entryText w)"
    by (auto simp: wordsOnly_def list_all_iff)
  then show "\<not> punctuationOnly env (entryText w) \<and> \<not> whitespaceOnly (entryText w)"
    by (rule isWord_not_punctuation)
qed

text \<open>
  The steps of a successful \<open>synthesizeSegment\<close>, in their order: the voice list, the
  engine, the leading-silence trim with its shift of an attached timeline, the
  alignment that stands in for a missing timeline, the time and pitch step with its
  rescaling, and last the word filter.
\<close>

lemma synthesizeSegment_Inr:
  assumes "synthesizeSegment env txt options = Inr (audio, tline)"
  shows "\<exists>listed selectedVoice out trimmed shifted aligned scaled.
     requestVoiceList (localeFns env) (voiceSources env) options = Inr listed \<and>
     bestMatchingVoice listed = Some selectedVoice \<and>
     engineSynthesize env txt selectedVoice (synthesisLanguage env options selectedVoice)
         (clippedSpeed options) (clippedPitch options) options
       = Inr out \<and>
     trimStartStep env (levelStep env options (rawAudio out)) (outTimeline out)
       = Inr (trimmed, shifted) \<and>
     alignStep env txt (truthyB (ssml options)) (synthesisLanguage env options selectedVoice)
         trimmed shifted
       = Inr aligned \<and>
     timePitchStep env (postProcessing options)
         (clippedSpeed options) (clippedPitch options)
         (shouldPostprocessSpeed out) (shouldPostprocessPitch out) trimmed aligned
       = Inr (audio, scaled) \<and>
     tline = wordFilter env scaled"
proof -
  from assms obtain listed where
    listed: "requestVoiceList (localeFns env) (voiceSources env) options = Inr listed"
    by (cases "requestVoiceList (localeFns env) (voiceSources env) options")
       (auto simp: synthesizeSegment_def)
  from assms listed obtain selectedVoice where
    best: "bestMatchingVoice listed = Some selectedVoice"
    by (cases "bestMatchingVoice listed") (auto simp: synthesizeSegment_def)
  let ?lang = "synthesisLanguage env options selectedVoice"
  let ?speed = "clippedSpeed options"
  let ?pitch = "clippedPitch options"
  from assms listed best obtain out where
    out: "engineSynthesize env txt selectedVoice ?lang ?speed ?pitch options = Inr out"
    by (cases "engineSynthesize env txt selectedVoice ?lang ?speed ?pitch options")
       (auto simp: synthesizeSegment_def Let_def)
  from assms listed best out obtain trimmed shifted where
    trimmed: "trimStartStep env (levelStep env options (rawAudio out)) (outTimeline out)
                = Inr (trimmed, shifted)"
    by (cases "trimStartStep env (levelStep env options (rawAudio out)) (outTimeline out)")
       (auto simp: synthesizeSegment_def Let_def)
  from assms listed best out trimmed obtain aligned where
    aligned: "alignStep env txt (truthyB (ssml options)) ?lang trimmed shifted = Inr aligned"
    by (cases "alignStep env txt (truthyB (ssml options)) ?lang trimmed shifted")
       (auto simp: synthesizeSegment_def Let_def)
  from assms listed best out trimmed aligned obtain scaled where
    scaled: "timePitchStep env (postProcessing options) ?speed ?pitch
               (shouldPostprocessSpeed out) (shouldPostprocessPitch out) trimmed aligned
             = Inr (audio, scaled)"
    and filtered: "tline = wordFilter env scaled"
    by (cases "timePitchStep env (postProcessing options) ?speed ?pitch
                 (shouldPostprocessSpeed out) (shouldPostprocessPitch out) trimmed aligned")
       (auto simp: synthesizeSegment_def Let_def)
  from listed best out trimmed aligned scaled filtered show ?thesis
    by blast
qed

lemma synthesizeSegment_wordsOnly:
  assumes "synthesizeSegment env sentenceText options = Inr (audio, tline)"
  shows "wordsOnly env tline"
proof -
  from synthesizeSegment_Inr [OF assms] obtain scaled where "tline = wordFilter env scaled"
    by blast
  then show ?thesis
    by (simp add: wordsOnly_wordFilter)
qed

text \<open>What the two loops add to the timeline.\<close>

lemma sentenceStep_entry:
  assumes "sentenceStep env options onSentence totalCount sentenceIndex sentence st = Inr st1"
  shows "\<exists>sent audio words.
     segmentEntryTimeline st1 = segmentEntryTimeline st @ [sent] \<and>
     timelineAcc st1 = timelineAcc st \<and>
     entryText sent = trim sentence \<and>
     synthesizeSegment env (entryText sent) (sentenceSynthesisOptionsOf options) = Inr (audio, words) \<and>
     timeline sent = addTimeOffsetToTimeline env words (startTime sent)"
proof -
  from sentenceStep_Inr [OF assms] obtain synthesized sentenceTimeline newOffset where
    syn: "synthesizeSegment env (trim sentence) (sentenceSynthesisOptionsOf options)
            = Inr (synthesized, sentenceTimeline)"
    and acc: "timelineAcc st1 = timelineAcc st"
    and grown: "segmentEntryTimeline st1 = segmentEntryTimeline st @
       [TimelineEntry (js ''sentence'') (trim sentence) (timeOffset st) newOffset
          (addTimeOffsetToTimeline env sentenceTimeline (timeOffset st))]"
    unfolding sentenceSynthesisOptionsOf_def by blast
  let ?sent = "TimelineEntry (js ''sentence'') (trim sentence) (timeOffset st) newOffset
                 (addTimeOffsetToTimeline env sentenceTimeline (timeOffset st))"
  have "entryText ?sent = trim sentence"
    and "timeline ?sent = addTimeOffsetToTimeline env sentenceTimeline (startTime ?sent)"
    by simp_all
  with syn acc grown show ?thesis
    by (metis TimelineEntry.sel(2))
qed

lemma sentenceLoop_entries:
  "sentenceLoop env options onSentence totalCount sentenceIndex sentences st = Inr st1 \<Longrightarrow>
   \<exists>added. segmentEntryTimeline st1 = segmentEntryTimeline st @ added \<and>
     timelineAcc st1 = timelineAcc st \<and>
     map entryText added = map trim sentences \<and>
     (\<forall>sent \<in> set added. \<exists>audio words.
        synthesizeSegment env (entryText sent) (sentenceSynthesisOptionsOf options) = Inr (audio, words) \<and>
        timeline sent = addTimeOffsetToTimeline env words (startTime sent))"
proof (induction sentences arbitrary: sentenceIndex st)
  case Nil
  then show ?case by simp
next
  case (Cons sentence rest)
  from Cons.prems obtain st2 where
    step: "sentenceStep env options onSentence totalCount sentenceIndex sentence
             (st\<lparr> cancelChecks := Suc (cancelChecks st) \<rparr>) = Inr st2"
    and rest: "sentenceLoop env options onSentence totalCount (sentenceIndex + 1) rest st2 = Inr st1"
    by (auto split: if_splits sum.splits)
  from sentenceStep_entry [OF step] obtain sent audio words where
    one: "segmentEntryTimeline st2 = segmentEntryTimeline st @ [sent]"
    and acc2: "timelineAcc st2 = timelineAcc st"
    and sentText: "entryText sent = trim sentence"
    and syn: "synthesizeSegment env (entryText sent) (sentenceSynthesisOptionsOf options) = Inr (audio, words)"
    and kids: "timeline sent = addTimeOffsetToTimeline env words (startTime sent)"
    by auto
  from Cons.IH [OF rest] obtain added where
    more: "segmentEntryTimeline st1 = segmentEntryTimeline st2 @ added"
    and acc1: "timelineAcc st1 = timelineAcc st2"
    and texts: "map entryText added = map trim rest"
    and made: "\<forall>sent \<in> set added. \<exists>audio words.
        synthesizeSegment env (entryText sent) (sentenceSynthesisOptionsOf options) = Inr (audio, words) \<and>
        timeline sent = addTimeOffsetToTimeline env words (startTime sent)"
    by blast
  have "segmentEntryTimeline st1 = segmentEntryTimeline st @ (sent # added)"
    using one more by simp
  moreover have "timelineAcc st1 = timelineAcc st"
    using acc1 acc2 by simp
  moreover have "map entryText (sent # added) = map trim (sentence # rest)"
    using sentText texts by simp
  moreover have "\<forall>sent \<in> set (sent # added). \<exists>audio words.
        synthesizeSegment env (entryText sent) (sentenceSynthesisOptionsOf options) = Inr (audio, words) \<and>
        timeline sent = addTimeOffsetToTimeline env words (startTime sent)"
    using syn kids made by auto
  ultimately show ?case by blast
qed

lemma segmentStep_Inr:
  assumes "segmentStep env options onSegment onSentence totalCount segmentIndex segment st = Inr st1"
  shows "\<exists>seg.
     timelineAcc st1 = timelineAcc st @ [seg] \<and>
     entryText seg = trim segment \<and>
     map entryText (timeline seg) = map trim (sentencesOf env options (trim segment)) \<and>
     (\<forall>sent \<in> set (timeline seg). \<exists>audio words.
        synthesizeSegment env (entryText sent) (sentenceSynthesisOptionsOf options) = Inr (audio, words) \<and>
        timeline sent = addTimeOffsetToTimeline env words (startTime sent))"
proof -
  let ?sentences = "sentencesOf env options (trim segment)"
  let ?st0 = "st\<lparr> sentencesAudio := [], sentencesTimelines := [], segmentEntryTimeline := [] \<rparr>"
  from assms obtain st2 where
    inner: "sentenceLoop env options onSentence (length ?sentences) 0 ?sentences ?st0 = Inr st2"
    and acc: "timelineAcc st1 = timelineAcc st2 @
       [TimelineEntry (js ''segment'') (trim segment) (timeOffset st) (timeOffset st2)
          (segmentEntryTimeline st2)]"
    by (auto simp: segmentStep_def Let_def split: sum.splits dest!: notify_Inr)
  from sentenceLoop_entries [OF inner] obtain added where
    kids: "segmentEntryTimeline st2 = added"
    and same: "timelineAcc st2 = timelineAcc st"
    and texts: "map entryText added = map trim ?sentences"
    and made: "\<forall>sent \<in> set added. \<exists>audio words.
        synthesizeSegment env (entryText sent) (sentenceSynthesisOptionsOf options) = Inr (audio, words) \<and>
        timeline sent = addTimeOffsetToTimeline env words (startTime sent)"
    by auto
  let ?seg = "TimelineEntry (js ''segment'') (trim segment) (timeOffset st) (timeOffset st2) added"
  have "timelineAcc st1 = timelineAcc st @ [?seg]"
    using acc kids same by simp
  moreover have "entryText ?seg = trim segment"
    by simp
  moreover have "map entryText (timeline ?seg) = map trim ?sentences"
    using texts by simp
  moreover have "\<forall>sent \<in> set (timeline ?seg). \<exists>audio words.
        synthesizeSegment env (entryText sent) (sentenceSynthesisOptionsOf options) = Inr (audio, words) \<and>
        timeline sent = addTimeOffsetToTimeline env words (startTime sent)"
    using made by simp
  ultimately show ?thesis by blast
qed

lemma segmentLoop_timeline:
  "segmentLoop env options onSegment onSentence totalCount segmentIndex segments st = Inr st1 \<Longrightarrow>
   \<exists>added. timelineAcc st1 = timelineAcc st @ added \<and>
     map entryText added = map trim segments \<and>
     map (\<lambda>seg. map entryText (timeline seg)) added =
       map (\<lambda>segment. map trim (sentencesOf env options (trim segment))) segments \<and>
     (\<forall>seg \<in> set added. \<forall>sent \<in> set (timeline seg). \<exists>audio words.
        synthesizeSegment env (entryText sent) (sentenceSynthesisOptionsOf options) = Inr (audio, words) \<and>
        timeline sent = addTimeOffsetToTimeline env words (startTime sent))"
proof (induction segments arbitrary: segmentIndex st)
  case Nil
  then show ?case by simp
next
  case (Cons segment rest)
  from Cons.prems obtain st2 where
    step: "segmentStep env options onSegment onSentence totalCount segmentIndex segment st = Inr st2"
    and rest: "segmentLoop env options onSegment onSentence totalCount (segmentIndex + 1) rest st2 = Inr st1"
    by (auto split: sum.splits)
  from segmentStep_Inr [OF step] obtain seg where
    one: "timelineAcc st2 = timelineAcc st @ [seg]"
    and segText: "entryText seg = trim segment"
    and sentTexts: "map entryText (timeline seg) = map trim (sentencesOf env options (trim segment))"
    and made: "\<forall>sent \<in> set (timeline seg). \<exists>audio words.
        synthesizeSegment env (entryText sent) (sentenceSynthesisOptionsOf options) = Inr (audio, words) \<and>
        timeline sent = addTimeOffsetToTimeline env words (startTime sent)"
    by blast
  from Cons.IH [OF rest] obtain added where
    more: "timelineAcc st1 = timelineAcc st2 @ added"
    and texts: "map entryText added = map trim rest"
    and sentTextsRest: "map (\<lambda>seg. map entryText (timeline seg)) added =
       map (\<lambda>segment. map trim (sentencesOf env options (trim segment))) rest"
    and madeRest: "\<forall>seg \<in> set added. \<forall>sent \<in> set (timeline seg). \<exists>audio words.
        synthesizeSegment env (entryText sent) (sentenceSynthesisOptionsOf options) = Inr (audio, words) \<and>
        timeline sent = addTimeOffsetToTimeline env words (startTime sent)"
    by blast
  have "timelineAcc st1 = timelineAcc st @ (seg # added)"
    using one more by simp
  moreover have "map entryText (seg # added) = map trim (segment # rest)"
    using segText texts by simp
  moreover have "map (\<lambda>seg. map entryText (timeline seg)) (seg # added) =
       map (\<lambda>segment. map trim (sentencesOf env options (trim segment))) (segment # rest)"
    using sentTexts sentTextsRest by simp
  moreover have "\<forall>seg \<in> set (seg # added). \<forall>sent \<in> set (timeline seg). \<exists>audio words.
        synthesizeSegment env (entryText sent) (sentenceSynthesisOptionsOf options) = Inr (audio, words) \<and>
        timeline sent = addTimeOffsetToTimeline env words (startTime sent)"
    using made madeRest by simp
  ultimately show ?case by blast
qed

lemma entryText_shiftEntry: "entryText (shiftEntry d entry) = entryText entry"
  by (cases entry) simp

text \<open>
  C3 as stated fails: the segment and sentence entries of the returned timeline carry
  the trimmed text of the segment and of the sentence, which \<open>synthesizeSegments\<close>
  never filters. The segment \<open>!!!\<close> comes back as a segment entry and a sentence entry
  with the text \<open>!!!\<close>, which consists of punctuation only.
\<close>

theorem synthesizeSegments_punctuation_counterexample:
  "synthesizeSegments (sampleEnv (\<lambda>k. False)) [js ''!!!''] noOptions None None
     = Inr \<lparr> synthesizedAudio = \<lparr> audioChannels = [[1, 1]], sampleRate = 2 \<rparr>,
             resultTimeline =
               [TimelineEntry (js ''segment'') (js ''!!!'') 0 1
                  [TimelineEntry (js ''sentence'') (js ''!!!'') 0 1 []]],
             resultSegmentsAudio = [\<lparr> audioChannels = [[1, 1]], sampleRate = 2 \<rparr>],
             resultSegmentsTimelines = [[TimelineEntry (js ''sentence'') (js ''!!!'') 0 1 []]] \<rparr> \<and>
   js ''!!!'' = [0x21, 0x21, 0x21] \<and>
   punctuationOnly (sampleEnv (\<lambda>k. False)) (js ''!!!'') \<and>
   \<not> isWord (sampleEnv (\<lambda>k. False)) (js ''!!!'')"
  by (simp add: synthesizeSegments_def synthesizeResolved_def resolveLanguage_def resolveEngine_def
      resolveVoice_def selectBestOfflineEngineForLanguage_def getAllLangCodesFromVoiceList_def
      segmentStep_def sentenceStep_def sentencesOf_def notify_def finish_def initialLocals_def
      trim_def isJsWhiteSpace_def getEmptyRawAudio_def
      isWord_def punctuationOnly_def whitespaceOnly_def isPunctuation_def
      levelStep_def synthesisLanguage_def clippedSpeed_def clippedPitch_def toDouble_tenth
      jsAdd_def jsSub_def jsMul_def jsDiv_def
      synthesizeSegment_def requestVoiceList_def defaultVoiceListRequestOptions_def sampleEnv_def sampleLocale_def
      sampleSources_def sampleVoices_def mkVoice_def noOptions_def extendDeep_def extendDeepPost_def
      defaultSynthesisOptions_def defaultPostProcessing_def orElse_def truthy_def truthyB_def
      filterByLanguage_def filterByGender_def filterByName_def pickBestMatchingVoice_def
      splitAtWordBoundaries_def isWordChar_def js_def Let_def clip_def
      trimStartStep_def alignStep_def timePitchStep_def differsFromOne_def orOne_def wordFilter_def
      sampleAudio_def dash_def)

text \<open>
  C3, amended. For every successful \<open>synthesizeSegments\<close> call:
  the segment entries of the returned timeline carry the trimmed segment texts and
  the sentence entries below them the trimmed sentence texts, whatever these texts
  are; the entries below a sentence entry are what \<open>addTimeOffsetToTimeline\<close> makes of
  the timeline that \<open>synthesizeSegment\<close> returned for that sentence and, when that helper
  leaves the texts of the entries as they are, none of them has a text that is
  punctuation-only or whitespace-only. In the timeline that a successful
  \<open>synthesizeSegment\<close> returns no entry has such a text, and that timeline is the word
  filter applied to the timeline that the time and pitch step made of the timeline
  that the alignment step made of the timeline that the leading-silence trim made of
  the timeline of the engine: the filter is the last step.
\<close>

theorem synthesizeSegments_word_entries:
  assumes "synthesizeSegments env segments options onSegment onSentence = Inr r"
  shows "map entryText (resultTimeline r) = map trim segments \<and>
     (\<exists>options1 options2 options3.
        resolveLanguage env segments (extendDeep defaultSynthesisOptions options) = Inr options1 \<and>
        resolveEngine env options1 = Inr options2 \<and>
        resolveVoice env options2 = Inr options3 \<and>
        map (\<lambda>seg. map entryText (timeline seg)) (resultTimeline r) =
          map (\<lambda>segment. map trim (sentencesOf env options3 (trim segment))) segments \<and>
        (\<forall>seg \<in> set (resultTimeline r). \<forall>sent \<in> set (timeline seg).
           \<exists>audio words.
             synthesizeSegment env (entryText sent) (sentenceSynthesisOptionsOf options3)
               = Inr (audio, words) \<and>
             timeline sent = addTimeOffsetToTimeline env words (startTime sent))) \<and>
     ((\<forall>tline d. map entryText (addTimeOffsetToTimeline env tline d) = map entryText tline) \<longrightarrow>
        (\<forall>seg \<in> set (resultTimeline r). \<forall>sent \<in> set (timeline seg). \<forall>w \<in> set (timeline sent).
           \<not> punctuationOnly env (entryText w) \<and> \<not> whitespaceOnly (entryText w))) \<and>
     (\<forall>sentenceText sentenceOptions audio tline.
        synthesizeSegment env sentenceText sentenceOptions = Inr (audio, tline) \<longrightarrow>
        (\<forall>w \<in> set tline. \<not> punctuationOnly env (entryText w) \<and> \<not> whitespaceOnly (entryText w)) \<and>
        (\<exists>listed selectedVoice out trimmed shifted aligned scaled.
           requestVoiceList (localeFns env) (voiceSources env) sentenceOptions = Inr listed \<and>
           bestMatchingVoice listed = Some selectedVoice \<and>
           engineSynthesize env sentenceText selectedVoice
               (synthesisLanguage env sentenceOptions selectedVoice)
               (clippedSpeed sentenceOptions) (clippedPitch sentenceOptions) sentenceOptions
             = Inr out \<and>
           trimStartStep env (levelStep env sentenceOptions (rawAudio out)) (outTimeline out)
             = Inr (trimmed, shifted) \<and>
           alignStep env sentenceText (truthyB (ssml sentenceOptions))
               (synthesisLanguage env sentenceOptions selectedVoice) trimmed shifted
             = Inr aligned \<and>
           timePitchStep env (postProcessing sentenceOptions)
               (clippedSpeed sentenceOptions) (clippedPitch sentenceOptions)
               (shouldPostprocessSpeed out) (shouldPostprocessPitch out) trimmed aligned
             = Inr (audio, scaled) \<and>
           tline = wordFilter env scaled))"
proof -
  from synthesizeSegments_Inr [OF assms] obtain options1 options2 options3 st where
    resolved: "resolveLanguage env segments (extendDeep defaultSynthesisOptions options) = Inr options1"
      "resolveEngine env options1 = Inr options2"
      "resolveVoice env options2 = Inr options3"
    and loop: "segmentLoop env options3 onSegment onSentence (length segments) 0 segments initialLocals = Inr st"
    and r: "r = finish env options3 st"
    by blast
  from segmentLoop_timeline [OF loop] obtain added where
    acc: "timelineAcc st = added"
    and texts: "map entryText added = map trim segments"
    and sentTexts: "map (\<lambda>seg. map entryText (timeline seg)) added =
       map (\<lambda>segment. map trim (sentencesOf env options3 (trim segment))) segments"
    and made: "\<forall>seg \<in> set added. \<forall>sent \<in> set (timeline seg). \<exists>audio words.
        synthesizeSegment env (entryText sent) (sentenceSynthesisOptionsOf options3) = Inr (audio, words) \<and>
        timeline sent = addTimeOffsetToTimeline env words (startTime sent)"
    by (auto simp: initialLocals_def)
  have result: "resultTimeline r = added"
    by (simp add: r finish_def Let_def acc)
  have segmentTexts: "map entryText (resultTimeline r) = map trim segments"
    by (simp add: result texts)
  have sentences: "\<exists>options1 options2 options3.
        resolveLanguage env segments (extendDeep defaultSynthesisOptions options) = Inr options1 \<and>
        resolveEngine env options1 = Inr options2 \<and>
        resolveVoice env options2 = Inr options3 \<and>
        map (\<lambda>seg. map entryText (timeline seg)) (resultTimeline r) =
          map (\<lambda>segment. map trim (sentencesOf env options3 (trim segment))) segments \<and>
        (\<forall>seg \<in> set (resultTimeline r). \<forall>sent \<in> set (timeline seg).
           \<exists>audio words.
             synthesizeSegment env (entryText sent) (sentenceSynthesisOptionsOf options3)
               = Inr (audio, words) \<and>
             timeline sent = addTimeOffsetToTimeline env words (startTime sent))"
    using resolved sentTexts made unfolding result by blast
  have words: "\<forall>seg \<in> set (resultTimeline r). \<forall>sent \<in> set (timeline seg). \<forall>w \<in> set (timeline sent).
           \<not> punctuationOnly env (entryText w) \<and> \<not> whitespaceOnly (entryText w)"
    if keeps: "\<forall>tline d. map entryText (addTimeOffsetToTimeline env tline d) = map entryText tline"
  proof (intro ballI)
    fix seg sent w
    assume "seg \<in> set (resultTimeline r)" and "sent \<in> set (timeline seg)" and w: "w \<in> set (timeline sent)"
    with made result obtain audio wordTimeline where
      syn: "synthesizeSegment env (entryText sent) (sentenceSynthesisOptionsOf options3)
              = Inr (audio, wordTimeline)"
      and kids: "timeline sent = addTimeOffsetToTimeline env wordTimeline (startTime sent)"
      by blast
    from keeps kids have "map entryText (timeline sent) = map entryText wordTimeline"
      by simp
    from wordsOnly_not_punctuation [OF synthesizeSegment_wordsOnly [OF syn] this] w
    show "\<not> punctuationOnly env (entryText w) \<and> \<not> whitespaceOnly (entryText w)"
      by blast
  qed
  have filterLast: "(\<forall>w \<in> set tline. \<not> punctuationOnly env (entryText w) \<and> \<not> whitespaceOnly (entryText w)) \<and>
        (\<exists>listed selectedVoice out trimmed shifted aligned scaled.
           requestVoiceList (localeFns env) (voiceSources env) sentenceOptions = Inr listed \<and>
           bestMatchingVoice listed = Some selectedVoice \<and>
           engineSynthesize env sentenceText selectedVoice
               (synthesisLanguage env sentenceOptions selectedVoice)
               (clippedSpeed sentenceOptions) (clippedPitch sentenceOptions) sentenceOptions
             = Inr out \<and>
           trimStartStep env (levelStep env sentenceOptions (rawAudio out)) (outTimeline out)
             = Inr (trimmed, shifted) \<and>
           alignStep env sentenceText (truthyB (ssml sentenceOptions))
               (synthesisLanguage env sentenceOptions selectedVoice) trimmed shifted
             = Inr aligned \<and>
           timePitchStep env (postProcessing sentenceOptions)
               (clippedSpeed sentenceOptions) (clippedPitch sentenceOptions)
               (shouldPostprocessSpeed out) (shouldPostprocessPitch out) trimmed aligned
             = Inr (audio, scaled) \<and>
           tline = wordFilter env scaled)"
    if run: "synthesizeSegment env sentenceText sentenceOptions = Inr (audio, tline)"
    for sentenceText sentenceOptions audio tline
    using wordsOnly_not_punctuation [OF synthesizeSegment_wordsOnly [OF run] refl]
      synthesizeSegment_Inr [OF run]
    by blast
  from segmentTexts sentences words filterLast show ?thesis
    by blast
qed

theorem synthesizeSegments_word_entries_witness:
  "\<exists>r. synthesizeSegments (sampleEnv (\<lambda>k. False)) [js '' Hi. !!!''] noOptions None None = Inr r \<and>
       resultTimeline r =
         [TimelineEntry (js ''segment'') (js ''Hi. !!!'') 0 2
            [TimelineEntry (js ''sentence'') (js ''Hi.'') 0 1
               [TimelineEntry (js ''word'') (js ''Hi.'') 0 1 []],
             TimelineEntry (js ''sentence'') (js ''!!!'') 1 2 []]] \<and>
       map entryText (resultTimeline r) = map trim [js '' Hi. !!!''] \<and>
       list_all (\<lambda>seg. list_all (\<lambda>sent. list_all (\<lambda>w.
           \<not> punctuationOnly (sampleEnv (\<lambda>k. False)) (entryText w) \<and> \<not> whitespaceOnly (entryText w))
         (timeline sent)) (timeline seg)) (resultTimeline r)"
proof -
  let ?env = "sampleEnv (\<lambda>k. False)"
  let ?timeline = "[TimelineEntry (js ''segment'') (js ''Hi. !!!'') 0 2
                  [TimelineEntry (js ''sentence'') (js ''Hi.'') 0 1
                     [TimelineEntry (js ''word'') (js ''Hi.'') 0 1 []],
                   TimelineEntry (js ''sentence'') (js ''!!!'') 1 2 []]]"
  let ?r = "\<lparr> synthesizedAudio = \<lparr> audioChannels = [[1, 1, 1, 1]], sampleRate = 2 \<rparr>,
             resultTimeline = ?timeline,
             resultSegmentsAudio = [\<lparr> audioChannels = [[1, 1, 1, 1]], sampleRate = 2 \<rparr>],
             resultSegmentsTimelines =
               [[TimelineEntry (js ''sentence'') (js ''Hi.'') 0 1
                   [TimelineEntry (js ''word'') (js ''Hi.'') 0 1 []],
                 TimelineEntry (js ''sentence'') (js ''!!!'') 1 2 []]] \<rparr>"
  have run: "synthesizeSegments ?env [js '' Hi. !!!''] noOptions None None = Inr ?r"
    by (simp add: synthesizeSegments_def synthesizeResolved_def resolveLanguage_def resolveEngine_def
      resolveVoice_def selectBestOfflineEngineForLanguage_def getAllLangCodesFromVoiceList_def
      segmentStep_def sentenceStep_def sentencesOf_def notify_def finish_def initialLocals_def
      trim_def isJsWhiteSpace_def getEmptyRawAudio_def
      isWord_def punctuationOnly_def whitespaceOnly_def isPunctuation_def
      levelStep_def synthesisLanguage_def clippedSpeed_def clippedPitch_def toDouble_tenth
      jsAdd_def jsSub_def jsMul_def jsDiv_def
      synthesizeSegment_def requestVoiceList_def defaultVoiceListRequestOptions_def sampleEnv_def sampleLocale_def
      sampleSources_def sampleVoices_def mkVoice_def noOptions_def extendDeep_def extendDeepPost_def
      defaultSynthesisOptions_def defaultPostProcessing_def orElse_def truthy_def truthyB_def
      filterByLanguage_def filterByGender_def filterByName_def pickBestMatchingVoice_def
      splitAtWordBoundaries_def isWordChar_def js_def Let_def clip_def
      trimStartStep_def alignStep_def timePitchStep_def differsFromOne_def orOne_def wordFilter_def
      sampleAudio_def dash_def)
  have keeps: "\<forall>tline d. map entryText (addTimeOffsetToTimeline ?env tline d) = map entryText tline"
    by (simp add: sampleEnv_def entryText_shiftEntry comp_def)
  from synthesizeSegments_word_entries [OF run] keeps
  have texts: "map entryText (resultTimeline ?r) = map trim [js '' Hi. !!!'']"
    and clean: "\<forall>seg \<in> set (resultTimeline ?r). \<forall>sent \<in> set (timeline seg). \<forall>w \<in> set (timeline sent).
           \<not> punctuationOnly ?env (entryText w) \<and> \<not> whitespaceOnly (entryText w)"
    by blast+
  from clean have "list_all (\<lambda>seg. list_all (\<lambda>sent. list_all (\<lambda>w.
           \<not> punctuationOnly ?env (entryText w) \<and> \<not> whitespaceOnly (entryText w))
         (timeline sent)) (timeline seg)) (resultTimeline ?r)"
    unfolding list_all_iff by blast
  with run texts show ?thesis
    by (intro exI [of _ ?r]) simp
qed

section \<open>Properties of the transport client\<close>

text \<open>
  Messages other than \<open>null\<close> and \<open>undefined\<close> are handled as C9 says: a frame that is
  not binary, a frame that fails to decode, a message without a request identifier
  and a message whose identifier has no listener all leave the handler normally, with
  no listener invoked.
\<close>

lemma handleMessage_drops_quietly:
  assumes "\<not> isBinary \<or> (\<exists>e. decodeMsgPack messageData = Inl e) \<or>
           (\<exists>m requestId. decodeMsgPack messageData = Inr m \<and> m \<noteq> JNull \<and> m \<noteq> JUndefined \<and>
              getProperty m (js ''requestId'') = Inr requestId \<and>
              (\<not> jsTruthy requestId \<or> getListener client requestId = None))"
  shows "\<exists>client1. handleMessage decodeMsgPack client messageData isBinary = Inr client1 \<and>
           invoked client1 = invoked client \<and> responseListeners client1 = responseListeners client"
  using assms
  by (auto simp: handleMessage_def onMessage_def)

lemma getProperty_total:
  "m \<noteq> JNull \<Longrightarrow> m \<noteq> JUndefined \<Longrightarrow> \<exists>v. getProperty m key = Inr v"
  by (cases m) (auto split: option.splits)

text \<open>
  C9 at the failing input: a binary frame whose payload is the single byte \<open>0xC0\<close>
  decodes to \<open>null\<close>, a message without a request identifier; reading
  \<open>incomingMessage.requestId\<close> throws a \<open>TypeError\<close>, which leaves the handler.
\<close>

theorem handleMessage_null_message_throws:
  "handleMessage sampleDecodeMsgPack newClient [0xC0] True = Inl TypeError"
  by (simp add: handleMessage_def sampleDecodeMsgPack_def onMessage_def)

end
